theory Spec2Isabelle
  imports Main "HOL-Library.Sublist"
begin

section \<open>Python values: exceptions, log records, the observable trace\<close>

text \<open>
  The value of a \<open>code\<close> attribute found on an exception object. Only the comparison
  \<open>problem.code == 403\<close> reads it, so integers and strings are told apart and nothing more.
\<close>

datatype attr = AInt int | AStr string

text \<open>
  Exceptions. \<open>ClientError\<close> is botocore's: it carries the provider's
  \<open>response["Error"]["Code"]\<close>, \<open>response["Error"]["Message"]\<close> and the name of the
  operation that failed; it has no \<open>code\<close> attribute. \<open>OtherError\<close> stands for an
  exception of any other class: its class name, whether the class derives from
  \<open>Exception\<close> (as opposed to \<open>BaseException\<close> only), its \<open>code\<close> attribute when it
  has one, and its text. \<open>UnboundLocalError\<close> carries the name of the local variable
  rather than the interpreter's message, and the text of a \<open>ClientError\<close> leaves out
  the note botocore adds once its own retries are used up.
\<close>

datatype exn =
    ClientError string string string
  | ValueError string
  | IndexError string
  | UnboundLocalError string
  | Exception string
  | OtherError string bool "attr option" string

fun str_exn :: "exn \<Rightarrow> string" where
  "str_exn (ClientError c m opn) =
     ''An error occurred ('' @ c @ '') when calling the '' @ opn @ '' operation: '' @ m"
| "str_exn (ValueError m) = m"
| "str_exn (IndexError m) = m"
| "str_exn (UnboundLocalError m) = m"
| "str_exn (Exception m) = m"
| "str_exn (OtherError _ _ _ m) = m"

text \<open>\<open>isinstance(problem, Exception)\<close>\<close>

fun is_Exception :: "exn \<Rightarrow> bool" where
  "is_Exception (OtherError _ derives _ _) = derives"
| "is_Exception _ = True"

text \<open>\<open>hasattr(problem, "code") and problem.code == 403\<close>\<close>

fun is_code_403 :: "exn \<Rightarrow> bool" where
  "is_code_403 (OtherError _ _ (Some (AInt c)) _) = (c = 403)"
| "is_code_403 _ = False"

text \<open>
  What is handed to a reporting sink or to the logger. The two messages the retry wrapper
  formats keep the values that fill their holes: \<open>"retry failed definitely: {}"\<close> keeps the
  list of problems, \<open>"retry failed: {} -- delaying for {}s"\<close> the problem and the delay.
\<close>

datatype log_msg =
    Text string
  | RetryFailedDefinitely "exn list"
  | RetryFailed exn nat

datatype level = INFO | ERROR

record ip_permission =
  IpProtocol :: string
  FromPort :: int
  ToPort :: int
  IpRanges :: "string list"

datatype ec2_instance = InstanceResource (resource_id: string)

datatype security_group = SecurityGroupResource (group_id: string)

text \<open>The requests that reach the provider, as the program issues them.\<close>

datatype request =
    DescribeInstances string
  | StartInstance ec2_instance
  | WaitUntilRunning ec2_instance
  | StopInstance ec2_instance
  | WaitUntilStopped ec2_instance
  | RebootInstance ec2_instance
  | ReadState ec2_instance
  | ReadPublicIp ec2_instance
  | ReadSecurityGroups ec2_instance
  | AuthorizeIngress security_group "ip_permission list"

text \<open>
  Everything the program does beyond returning a value: a record written by the logger,
  a \<open>time.sleep\<close>, a call of the function the retry wrapper wraps, a request to the provider.
\<close>

datatype event =
    Log level log_msg
  | Sleep nat
  | Invoke
  | Request request

text \<open>The world: the provider's state, which the program cannot see, and the trace so far.\<close>

record 's world =
  provider :: 's
  trace :: "event list"

definition emit :: "event list \<Rightarrow> 's world \<Rightarrow> 's world" where
  "emit evs w = w\<lparr>trace := trace w @ evs\<rparr>"

text \<open>
  \<open>time.sleep(delay)\<close>. A delay is a wait duration in seconds, the only kind of number
  \<open>time.sleep\<close> accepts: a schedule is a list of naturals.
\<close>

definition time_sleep :: "nat \<Rightarrow> 's world \<Rightarrow> 's world" where
  "time_sleep d w = emit [Sleep d] w"

section \<open>retry.py\<close>

type_synonym sink = "log_msg \<Rightarrow> (level \<times> log_msg) list"

definition reported :: "sink \<Rightarrow> log_msg \<Rightarrow> event list" where
  "reported report m = map (\<lambda>(l, m'). Log l m') (report m)"

text \<open>
  The loop of \<open>wrapped\<close>, over what is left of \<open>itertools.chain(delays, [None])\<close>.
  \<open>exception\<close> is the class the handler catches, as a predicate on the raised exception;
  \<open>report\<close> is the sink, given by the log records a call of it leaves (none for the
  default \<open>lambda *args: None\<close>); \<open>function\<close> is the wrapped function applied to its
  arguments.
  A loop that runs off its end falls out of \<open>wrapped\<close>, which then returns Python's
  \<open>None\<close>: the parameter \<open>none\<close> is that value in the function's result type.
\<close>

fun retry_loop ::
  "'a \<Rightarrow> (exn \<Rightarrow> bool) \<Rightarrow> sink \<Rightarrow>
   ('s world \<Rightarrow> (exn + 'a) \<times> 's world) \<Rightarrow>
   nat option list \<Rightarrow> exn list \<Rightarrow> 's world \<Rightarrow> (exn + 'a) \<times> 's world" where
  "retry_loop none exception report function [] problems w = (Inr none, w)"
| "retry_loop none exception report function (delay # rest) problems w =
     (case function (emit [Invoke] w) of
        (Inr v, w1) \<Rightarrow> (Inr v, w1)
      | (Inl problem, w1) \<Rightarrow>
          if \<not> exception problem then (Inl problem, w1)
          else if is_code_403 problem then (Inl problem, w1)
          else
            (case delay of
               None \<Rightarrow>
                 (Inl problem, emit (reported report (RetryFailedDefinitely (problems @ [problem]))) w1)
             | Some d \<Rightarrow>
                 retry_loop none exception report function rest (problems @ [problem])
                   (time_sleep d (emit (reported report (RetryFailed problem d)) w1))))"

definition wrapped ::
  "'a \<Rightarrow> nat list \<Rightarrow> (exn \<Rightarrow> bool) \<Rightarrow> sink \<Rightarrow>
   ('s world \<Rightarrow> (exn + 'a) \<times> 's world) \<Rightarrow> 's world \<Rightarrow> (exn + 'a) \<times> 's world" where
  "wrapped none delays exception report function w =
     retry_loop none exception report function (map Some delays @ [None]) [] w"

text \<open>The defaults of \<open>retry\<close>.\<close>

definition default_delays :: "nat list" where
  "default_delays = [0, 1, 2, 4, 8, 16]"

definition default_report :: sink where
  "default_report m = []"

text \<open>
  An operation on the provider's state alone, as a function for the wrapper, and the
  outcomes of its first \<open>n\<close> successive calls from a state, with the state they leave.
\<close>

definition on_provider ::
  "('s \<Rightarrow> (exn + 'a) \<times> 's) \<Rightarrow> 's world \<Rightarrow> (exn + 'a) \<times> 's world" where
  "on_provider op w = (case op (provider w) of (r, p) \<Rightarrow> (r, w\<lparr>provider := p\<rparr>))"

fun attempts :: "('s \<Rightarrow> (exn + 'a) \<times> 's) \<Rightarrow> nat \<Rightarrow> 's \<Rightarrow> (exn + 'a) list \<times> 's" where
  "attempts op 0 p = ([], p)"
| "attempts op (Suc n) p =
     (case op p of (r, p1) \<Rightarrow> (case attempts op n p1 of (rs, p2) \<Rightarrow> (r # rs, p2)))"

definition invocations :: "'s world \<Rightarrow> nat" where
  "invocations w = length (filter (\<lambda>ev. ev = Invoke) (trace w))"

text \<open>The events of one failed attempt that is followed by a retry.\<close>

definition retry_events :: "sink \<Rightarrow> exn \<times> nat \<Rightarrow> event list" where
  "retry_events report =
     (\<lambda>(problem, d). Invoke # reported report (RetryFailed problem d) @ [Sleep d])"

section \<open>ec2.py\<close>

subsection \<open>The provider\<close>

text \<open>
  The part of a \<open>describe_instances\<close> response the program reads:
  \<open>response["Reservations"][0]["Instances"][0]["InstanceId"]\<close>.
\<close>

record instance_description =
  InstanceId :: string

record reservation =
  Instances :: "instance_description list"

datatype authorize_response = AuthorizeResponse (Return: bool)

text \<open>
  boto3 and the service behind it are not code of the repository: they are a parameter.
  \<open>get_ec2_client()\<close> and \<open>get_ec2_resource()\<close> are taken to succeed (credentials and
  region come from the environment), and \<open>'s api\<close> is what the client and the resource
  they return do on a provider state \<open>'s\<close>. \<open>Instance\<close> and \<open>SecurityGroup\<close> build a
  resource object from an identifier and send nothing; the other fields are requests, the
  last four of them the reads behind the attributes \<open>state["Name"]\<close>,
  \<open>public_ip_address\<close> and \<open>security_groups\<close> (the \<open>GroupId\<close> of each entry) of an
  instance and the \<open>authorize_ingress\<close> action of a security group.
\<close>

record 's api =
  describe_instances :: "string \<Rightarrow> 's \<Rightarrow> (exn + reservation list) \<times> 's"
  Instance :: "string option \<Rightarrow> exn + ec2_instance"
  SecurityGroup :: "string \<Rightarrow> exn + security_group"
  start :: "ec2_instance \<Rightarrow> 's \<Rightarrow> (exn + unit) \<times> 's"
  wait_until_running :: "ec2_instance \<Rightarrow> 's \<Rightarrow> (exn + unit) \<times> 's"
  stop :: "ec2_instance \<Rightarrow> 's \<Rightarrow> (exn + unit) \<times> 's"
  wait_until_stopped :: "ec2_instance \<Rightarrow> 's \<Rightarrow> (exn + unit) \<times> 's"
  reboot :: "ec2_instance \<Rightarrow> 's \<Rightarrow> (exn + unit) \<times> 's"
  state_Name :: "ec2_instance \<Rightarrow> 's \<Rightarrow> (exn + string) \<times> 's"
  public_ip_address :: "ec2_instance \<Rightarrow> 's \<Rightarrow> (exn + string option) \<times> 's"
  security_groups :: "ec2_instance \<Rightarrow> 's \<Rightarrow> (exn + string list) \<times> 's"
  sg_authorize_ingress ::
    "security_group \<Rightarrow> ip_permission list \<Rightarrow> 's \<Rightarrow> (exn + authorize_response) \<times> 's"

subsection \<open>Actions\<close>

type_synonym ('s, 'a) action = "'s world \<Rightarrow> (exn + 'a) \<times> 's world"

definition returns :: "'a \<Rightarrow> ('s, 'a) action" where
  "returns v w = (Inr v, w)"

definition raises :: "exn \<Rightarrow> ('s, 'a) action" where
  "raises e w = (Inl e, w)"

text \<open>Sequencing: an exception of the first action leaves the second one out.\<close>

definition then_do :: "('s, 'a) action \<Rightarrow> ('a \<Rightarrow> ('s, 'b) action) \<Rightarrow> ('s, 'b) action" where
  "then_do m k w = (case m w of (Inl e, w1) \<Rightarrow> (Inl e, w1) | (Inr v, w1) \<Rightarrow> k v w1)"

text \<open>A request to the provider: it is written to the trace and answered on the state.\<close>

definition call :: "request \<Rightarrow> ('s \<Rightarrow> (exn + 'a) \<times> 's) \<Rightarrow> ('s, 'a) action" where
  "call rq f w =
     (case f (provider w) of (r, p) \<Rightarrow> (r, w\<lparr>provider := p, trace := trace w @ [Request rq]\<rparr>))"

text \<open>\<open>logger.info\<close> and \<open>logger.error\<close>, as sinks and as actions on a text.\<close>

definition logger_info_sink :: sink where
  "logger_info_sink m = [(INFO, m)]"

definition logger_error_sink :: sink where
  "logger_error_sink m = [(ERROR, m)]"

definition logger_info :: "string \<Rightarrow> ('s, unit) action" where
  "logger_info s w = (Inr (), emit (reported logger_info_sink (Text s)) w)"

definition logger_error :: "string \<Rightarrow> ('s, unit) action" where
  "logger_error s w = (Inr (), emit (reported logger_error_sink (Text s)) w)"

text \<open>What an f-string prints for an identifier that may be \<open>None\<close>.\<close>

fun str_opt :: "string option \<Rightarrow> string" where
  "str_opt None = ''None''"
| "str_opt (Some s) = s"

subsection \<open>The functions of the module\<close>

definition get_ec2_instance_resource ::
  "'s api \<Rightarrow> string option \<Rightarrow> ('s, ec2_instance option) action" where
  "get_ec2_instance_resource ec2 instance_id =
     (case Instance ec2 instance_id of
        Inr resource \<Rightarrow> returns (Some resource)
      | Inl (ClientError c m opn) \<Rightarrow>
          then_do (logger_error (''Error getting EC2 instance resource: '' @
                                 str_exn (ClientError c m opn)))
            (\<lambda>_. returns None)
      | Inl (ValueError ve) \<Rightarrow>
          if sublist ''Required parameter'' ve
          then then_do (logger_error ''No instance ID was found for the lookup operation'')
                 (\<lambda>_. returns None)
          else raises (UnboundLocalError ''resource'')
      | Inl e \<Rightarrow> raises e)"

definition get_ec2_instance_id_by_name :: "'s api \<Rightarrow> string \<Rightarrow> ('s, string option) action" where
  "get_ec2_instance_id_by_name ec2 instance_name w =
     (case call (DescribeInstances instance_name) (describe_instances ec2 instance_name) w of
        (Inl e, w1) \<Rightarrow>
          if is_Exception e
          then then_do (logger_error (''Error getting EC2 instance by name: '' @ instance_name @
                                      '': '' @ str_exn e))
                 (\<lambda>_. returns None) w1
          else (Inl e, w1)
      | (Inr reservations, w1) \<Rightarrow>
          if reservations = []
          then then_do (logger_error (''No EC2 instance found by name: '' @ instance_name))
                 (\<lambda>_. returns None) w1
          else if length reservations > 1
          then then_do (logger_error (''Multiple EC2 instances found by name: '' @ instance_name))
                 (\<lambda>_. returns None) w1
          else
            (case Instances (reservations ! 0) of
               [] \<Rightarrow> (Inl (IndexError ''list index out of range''), w1)
             | i # _ \<Rightarrow> (Inr (Some (InstanceId i)), w1)))"

definition get_security_group :: "'s api \<Rightarrow> string \<Rightarrow> ('s, security_group) action" where
  "get_security_group ec2 gid =
     (case SecurityGroup ec2 gid of Inl e \<Rightarrow> raises e | Inr sg \<Rightarrow> returns sg)"

text \<open>The function \<open>get_instance_public_ip\<close> as written, and as \<open>@retry\<close> leaves it.\<close>

definition get_instance_public_ip_undecorated ::
  "'s api \<Rightarrow> ec2_instance \<Rightarrow> ('s, string option) action" where
  "get_instance_public_ip_undecorated ec2 instance_resource =
     then_do (call (ReadPublicIp instance_resource) (public_ip_address ec2 instance_resource))
       (\<lambda>ip. if ip = None then raises (Exception ''No public IP address found'')
             else returns ip)"

definition get_instance_public_ip ::
  "'s api \<Rightarrow> ec2_instance \<Rightarrow> ('s, string option) action" where
  "get_instance_public_ip ec2 instance_resource =
     wrapped None default_delays is_Exception logger_info_sink
       (get_instance_public_ip_undecorated ec2 instance_resource)"

definition authorize_ingress ::
  "'s api \<Rightarrow> security_group option \<Rightarrow> string \<Rightarrow> ('s, authorize_response option) action" where
  "authorize_ingress ec2 security_group ssh_ingress_ip w =
     (case security_group of
        None \<Rightarrow> then_do (logger_info ''No security group to update.'') (\<lambda>_. returns None) w
      | Some sg \<Rightarrow>
          (let ip_permissions =
                 [\<lparr>IpProtocol = ''tcp'', FromPort = 22, ToPort = 22,
                   IpRanges = [ssh_ingress_ip @ ''/32'']\<rparr>]
           in case call (AuthorizeIngress sg ip_permissions)
                     (sg_authorize_ingress ec2 sg ip_permissions) w of
                (Inr response, w1) \<Rightarrow> (Inr (Some response), w1)
              | (Inl (ClientError code message opn), w1) \<Rightarrow>
                  if code = ''InvalidPermission.Duplicate''
                  then then_do (logger_info ''Inbound rules already exist. Nothing to do.'')
                         (\<lambda>_. returns None) w1
                  else then_do
                         (logger_error (''Couldn't authorize inbound rules for '' @ group_id sg @
                                        ''. Here's why: '' @ code @ '': '' @ message))
                         (\<lambda>_. raises (ClientError code message opn)) w1
              | (Inl e, w1) \<Rightarrow> (Inl e, w1)))"

text \<open>The expression \<open>instance.security_groups[0]["GroupId"]\<close>.\<close>

definition first_group_id :: "'s api \<Rightarrow> ec2_instance \<Rightarrow> ('s, string) action" where
  "first_group_id ec2 inst =
     then_do (call (ReadSecurityGroups inst) (security_groups ec2 inst))
       (\<lambda>groups. case groups of
                    [] \<Rightarrow> raises (IndexError ''list index out of range'')
                  | g # _ \<Rightarrow> returns g)"

definition start_instance ::
  "'s api \<Rightarrow> string \<Rightarrow> string \<Rightarrow> ('s, string option \<times> string option) action" where
  "start_instance ec2 instance_name my_ip =
     then_do (logger_info (''1. Getting EC2 Instance by name '' @ instance_name @ ''...'')) (\<lambda>_.
     then_do (get_ec2_instance_id_by_name ec2 instance_name) (\<lambda>instance_id.
     then_do (get_ec2_instance_resource ec2 instance_id) (\<lambda>instance.
       case instance of
         None \<Rightarrow> returns (None, None)
       | Some inst \<Rightarrow>
           then_do (logger_info (''2. Starting EC2 Instance: '' @ str_opt instance_id @ ''...'')) (\<lambda>_.
           then_do (call (StartInstance inst) (start ec2 inst)) (\<lambda>_.
           then_do (logger_info (''3. Waiting for EC2 Instance to start: '' @ str_opt instance_id @
                                 ''...'')) (\<lambda>_.
           then_do (call (WaitUntilRunning inst) (wait_until_running ec2 inst)) (\<lambda>_.
           then_do (first_group_id ec2 inst) (\<lambda>gid.
           then_do (logger_info (''4. Getting Security Group by ID: '' @ gid @ ''...'')) (\<lambda>_.
           then_do (first_group_id ec2 inst) (\<lambda>gid'.
           then_do (get_security_group ec2 gid') (\<lambda>security_group.
           then_do (logger_info (''5. Authorizing ingress on port 22 for IP: '' @ my_ip @ ''...'')) (\<lambda>_.
           then_do (authorize_ingress ec2 (Some security_group) my_ip) (\<lambda>_.
           then_do (get_instance_public_ip ec2 inst) (\<lambda>public_ip.
             returns (instance_id, public_ip)))))))))))))))"

definition stop_instance :: "'s api \<Rightarrow> string \<Rightarrow> ('s, string option) action" where
  "stop_instance ec2 instance_name =
     then_do (logger_info (''1. Getting EC2 Instance by name '' @ instance_name @ ''...'')) (\<lambda>_.
     then_do (get_ec2_instance_id_by_name ec2 instance_name) (\<lambda>instance_id.
     then_do (get_ec2_instance_resource ec2 instance_id) (\<lambda>instance.
       case instance of
         None \<Rightarrow> returns None
       | Some inst \<Rightarrow>
           then_do (logger_info (''2. Stopping EC2 Instance: '' @ str_opt instance_id @ ''...'')) (\<lambda>_.
           then_do (call (StopInstance inst) (stop ec2 inst)) (\<lambda>_.
           then_do (logger_info (''3. Waiting for EC2 Instance to stop: '' @ str_opt instance_id @
                                 ''...'')) (\<lambda>_.
           then_do (call (WaitUntilStopped inst) (wait_until_stopped ec2 inst)) (\<lambda>_.
             returns instance_id)))))))"

definition get_instance_status ::
  "'s api \<Rightarrow> string \<Rightarrow> ('s, string option \<times> string option) action" where
  "get_instance_status ec2 instance_name =
     then_do (get_ec2_instance_id_by_name ec2 instance_name) (\<lambda>instance_id.
     then_do (get_ec2_instance_resource ec2 instance_id) (\<lambda>instance.
       case instance of
         None \<Rightarrow> returns (None, None)
       | Some inst \<Rightarrow>
           then_do (call (ReadState inst) (state_Name ec2 inst)) (\<lambda>name.
             if name = ''stopped'' then returns (Some ''stopped'', Some ''0.0.0.0'')
             else
               then_do (get_instance_public_ip ec2 inst) (\<lambda>public_ip.
               then_do (call (ReadState inst) (state_Name ec2 inst)) (\<lambda>name'.
                 returns (Some name', public_ip))))))"

definition reboot_instance :: "'s api \<Rightarrow> string \<Rightarrow> ('s, string option) action" where
  "reboot_instance ec2 instance_name =
     then_do (logger_info (''1. Getting EC2 Instance by name '' @ instance_name @ ''...'')) (\<lambda>_.
     then_do (get_ec2_instance_id_by_name ec2 instance_name) (\<lambda>instance_id.
     then_do (get_ec2_instance_resource ec2 instance_id) (\<lambda>instance.
       case instance of
         None \<Rightarrow> returns None
       | Some inst \<Rightarrow>
           then_do (logger_info (''2. Rebooting EC2 Instance: '' @ str_opt instance_id)) (\<lambda>_.
           then_do (call (RebootInstance inst) (reboot ec2 inst)) (\<lambda>_.
             returns instance_id)))))"

section \<open>Reading a trace\<close>

fun requests_of :: "event list \<Rightarrow> request list" where
  "requests_of [] = []"
| "requests_of (Request rq # evs) = rq # requests_of evs"
| "requests_of (_ # evs) = requests_of evs"

text \<open>The permission list \<open>authorize_ingress\<close> sends for an address.\<close>

definition ssh_permissions :: "string \<Rightarrow> ip_permission list" where
  "ssh_permissions ip =
     [\<lparr>IpProtocol = ''tcp'', FromPort = 22, ToPort = 22, IpRanges = [ip @ ''/32'']\<rparr>]"

section \<open>A provider to run the program against\<close>

text \<open>
  Modelled from the spec: the provider's store of security rule sets, which is a remote
  service and no code of the repository. A rule set holds ingress rules; a request to add
  a rule that the set already contains is answered with the duplicate-permission error
  \<open>InvalidPermission.Duplicate\<close> and changes nothing; a request on a rule set that does
  not exist is answered with \<open>InvalidGroup.NotFound\<close>; any other request adds its rules.
\<close>

type_synonym rule_sets = "string \<rightharpoonup> ip_permission list"

definition provider_authorize_ingress ::
  "security_group \<Rightarrow> ip_permission list \<Rightarrow> rule_sets \<Rightarrow> (exn + authorize_response) \<times> rule_sets" where
  "provider_authorize_ingress sg permissions sets =
     (case sets (group_id sg) of
        None \<Rightarrow>
          (Inl (ClientError ''InvalidGroup.NotFound'' ''The security group does not exist''
                  ''AuthorizeSecurityGroupIngress''), sets)
      | Some rules \<Rightarrow>
          if list_ex (\<lambda>permission. permission \<in> set rules) permissions
          then (Inl (ClientError ''InvalidPermission.Duplicate''
                       ''the specified rule already exists''
                       ''AuthorizeSecurityGroupIngress''), sets)
          else (Inr (AuthorizeResponse True), sets(group_id sg \<mapsto> rules @ permissions)))"

text \<open>
  A small provider for concrete runs: the name \<open>devbox\<close> is the running instance
  \<open>i-0123\<close> at 203.0.113.5, the name \<open>spare\<close> the stopped instance \<open>i-0456\<close> with no
  address, the name \<open>twin\<close> matches two reservations, and no other name matches; every
  instance is attached to the rule set \<open>sg-1\<close>. The resource factory refuses a missing
  identifier the way boto3 does.
\<close>

definition example_ec2 :: "rule_sets api" where
  "example_ec2 =
     \<lparr>describe_instances = (\<lambda>name p.
        (Inr (if name = ''devbox'' then [\<lparr>Instances = [\<lparr>InstanceId = ''i-0123''\<rparr>]\<rparr>]
              else if name = ''spare'' then [\<lparr>Instances = [\<lparr>InstanceId = ''i-0456''\<rparr>]\<rparr>]
              else if name = ''twin''
              then [\<lparr>Instances = [\<lparr>InstanceId = ''i-0777''\<rparr>]\<rparr>,
                    \<lparr>Instances = [\<lparr>InstanceId = ''i-0888''\<rparr>]\<rparr>]
              else []), p)),
      Instance = (\<lambda>i. case i of
                         None \<Rightarrow> Inl (ValueError ''Required parameter id not set'')
                       | Some i' \<Rightarrow> Inr (InstanceResource i')),
      SecurityGroup = (\<lambda>g. Inr (SecurityGroupResource g)),
      start = (\<lambda>_ p. (Inr (), p)),
      wait_until_running = (\<lambda>_ p. (Inr (), p)),
      stop = (\<lambda>_ p. (Inr (), p)),
      wait_until_stopped = (\<lambda>_ p. (Inr (), p)),
      reboot = (\<lambda>_ p. (Inr (), p)),
      state_Name = (\<lambda>i p. (Inr (if resource_id i = ''i-0123'' then ''running'' else ''stopped''), p)),
      public_ip_address = (\<lambda>i p.
        (Inr (if resource_id i = ''i-0123'' then Some ''203.0.113.5'' else None), p)),
      security_groups = (\<lambda>_ p. (Inr [''sg-1''], p)),
      sg_authorize_ingress = provider_authorize_ingress\<rparr>"

text \<open>
  An operation that counts its calls in the state: the first calls raise the exceptions of
  \<open>es\<close> in turn, every later one returns \<open>v\<close>.
\<close>

definition fails_in_turn :: "exn list \<Rightarrow> 'a \<Rightarrow> nat \<Rightarrow> (exn + 'a) \<times> nat" where
  "fails_in_turn es v n = (if n < length es then (Inl (es ! n), Suc n) else (Inr v, Suc n))"

text \<open>
  A provider on which every name matches one reservation that lists two instances, as
  two instances launched together under one name are returned.
\<close>

definition pair_ec2 :: "rule_sets api" where
  "pair_ec2 =
     example_ec2\<lparr>describe_instances := (\<lambda>name p.
       (Inr [\<lparr>Instances = [\<lparr>InstanceId = ''i-0aaa''\<rparr>, \<lparr>InstanceId = ''i-0bbb''\<rparr>]\<rparr>], p))\<rparr>"

text \<open>
  A provider whose state counts the reads of the public address: the instance \<open>i-0123\<close>,
  named \<open>devbox\<close>, is pending and without an address until two reads have found none,
  running at 203.0.113.5 from then on.
\<close>

definition warming_ec2 :: "nat api" where
  "warming_ec2 =
     \<lparr>describe_instances = (\<lambda>name n.
        (Inr (if name = ''devbox'' then [\<lparr>Instances = [\<lparr>InstanceId = ''i-0123''\<rparr>]\<rparr>] else []), n)),
      Instance = (\<lambda>i. case i of
                         None \<Rightarrow> Inl (ValueError ''Required parameter id not set'')
                       | Some i' \<Rightarrow> Inr (InstanceResource i')),
      SecurityGroup = (\<lambda>g. Inr (SecurityGroupResource g)),
      start = (\<lambda>_ n. (Inr (), n)),
      wait_until_running = (\<lambda>_ n. (Inr (), n)),
      stop = (\<lambda>_ n. (Inr (), n)),
      wait_until_stopped = (\<lambda>_ n. (Inr (), n)),
      reboot = (\<lambda>_ n. (Inr (), n)),
      state_Name = (\<lambda>_ n. (Inr (if n < 2 then ''pending'' else ''running''), n)),
      public_ip_address = (\<lambda>_ n. (Inr (if n < 2 then None else Some ''203.0.113.5''), Suc n)),
      security_groups = (\<lambda>_ n. (Inr [''sg-1''], n)),
      sg_authorize_ingress = (\<lambda>_ _ n. (Inr (AuthorizeResponse True), n))\<rparr>"

text \<open>
  What the body of \<open>get_instance_public_ip\<close> does to the provider's state and what it
  yields: the read of the attribute, a missing address turned into the exception.
\<close>

definition public_ip_or_raise ::
  "'s api \<Rightarrow> ec2_instance \<Rightarrow> 's \<Rightarrow> (exn + string option) \<times> 's" where
  "public_ip_or_raise ec2 inst p =
     (case public_ip_address ec2 inst p of
        (Inl e, p1) \<Rightarrow> (Inl e, p1)
      | (Inr ip, p1) \<Rightarrow>
          if ip = None then (Inl (Exception ''No public IP address found''), p1)
          else (Inr ip, p1))"

text \<open>
  The events of one fetch of the address that finds none and is followed by a retry
  after \<open>d\<close> seconds.
\<close>

definition no_ip_yet :: "ec2_instance \<Rightarrow> nat \<Rightarrow> event list" where
  "no_ip_yet inst d =
     [Invoke, Request (ReadPublicIp inst),
      Log INFO (RetryFailed (Exception ''No public IP address found'') d), Sleep d]"

section \<open>Auxiliary facts\<close>

lemma attempts_length: "attempts op n p = (rs, p') \<Longrightarrow> length rs = n"
  by (induction n arbitrary: p rs) (auto split: prod.splits)

lemma invocations_emit:
  "invocations (emit evs w) = invocations w + length (filter (\<lambda>ev. ev = Invoke) evs)"
  by (simp add: invocations_def emit_def)

lemma reported_no_Invoke: "filter (\<lambda>ev. ev = Invoke) (reported report m) = []"
  by (auto simp: reported_def filter_empty_conv)

lemma retry_events_Invoke: "length (filter (\<lambda>ev. ev = Invoke) (retry_events report x)) = 1"
  by (cases x) (simp add: retry_events_def reported_no_Invoke)

lemma concat_retry_events_Invoke:
  "length (filter (\<lambda>ev. ev = Invoke) (concat (map (retry_events report) xs))) = length xs"
  by (induction xs) (simp_all add: retry_events_Invoke)

lemma retry_loop_failures:
  "attempts op (length es) (provider w) = (map Inl es, p') \<Longrightarrow>
   \<forall>e\<in>set es. exception e \<and> \<not> is_code_403 e \<Longrightarrow>
   length es \<le> length D \<Longrightarrow>
   retry_loop none exception report (on_provider op) (map Some D @ rest) problems w =
   retry_loop none exception report (on_provider op) (map Some (drop (length es) D) @ rest)
     (problems @ es)
     (w\<lparr>provider := p', trace := trace w @ concat (map (retry_events report) (zip es D))\<rparr>)"
proof (induction es arbitrary: D problems w)
  case Nil
  then have "w\<lparr>provider := p'\<rparr> = w" by simp
  then show ?case by simp
next
  case (Cons e es)
  then obtain d D' where D: "D = d # D'" by (cases D) auto
  obtain r p1 where op: "op (provider w) = (r, p1)" by (cases "op (provider w)")
  obtain rs p2 where at: "attempts op (length es) p1 = (rs, p2)" by (cases "attempts op (length es) p1")
  from Cons.prems(1) op at have r: "r = Inl e" and rs: "rs = map Inl es" and p2: "p2 = p'"
    by simp_all
  let ?w1 = "time_sleep d (emit (reported report (RetryFailed e d))
               ((emit [Invoke] w)\<lparr>provider := p1\<rparr>))"
  have step: "retry_loop none exception report (on_provider op) (map Some D @ rest) problems w =
     retry_loop none exception report (on_provider op) (map Some D' @ rest) (problems @ [e]) ?w1"
    using Cons.prems(2) op r D by (simp add: on_provider_def emit_def)
  have prov: "provider ?w1 = p1" by (simp add: time_sleep_def emit_def)
  have "retry_loop none exception report (on_provider op) (map Some D' @ rest) (problems @ [e]) ?w1 =
     retry_loop none exception report (on_provider op) (map Some (drop (length es) D') @ rest)
     ((problems @ [e]) @ es)
     (?w1\<lparr>provider := p', trace := trace ?w1 @ concat (map (retry_events report) (zip es D'))\<rparr>)"
    using Cons.prems at rs p2 D prov by (intro Cons.IH) simp_all
  with step show ?case
    by (simp add: D time_sleep_def emit_def retry_events_def)
qed

lemma attempts_add:
  "attempts op (m + n) p =
     (case attempts op m p of (rs1, p1) \<Rightarrow>
        (case attempts op n p1 of (rs2, p2) \<Rightarrow> (rs1 @ rs2, p2)))"
  by (induction m arbitrary: p) (auto split: prod.splits)

lemma attempts_snoc:
  assumes "attempts op (Suc k) p = (rs @ [r], p')"
  shows "\<exists>p1. attempts op k p = (rs, p1) \<and> op p1 = (r, p')"
proof -
  obtain rs1 p1 where a1: "attempts op k p = (rs1, p1)" by (cases "attempts op k p")
  obtain r2 p2 where a2: "op p1 = (r2, p2)" by (cases "op p1")
  have "attempts op (k + 1) p = (rs1 @ [r2], p2)"
    unfolding attempts_add using a1 a2 by simp
  with assms have "rs1 @ [r2] = rs @ [r]" and "p2 = p'" by simp_all
  with a1 a2 show ?thesis by simp
qed

lemma then_do_Inr:
  assumes "then_do m k w = (Inr v, w')"
  obtains x w1 where "m w = (Inr x, w1)" and "k x w1 = (Inr v, w')"
  using assms by (auto simp: then_do_def split: prod.splits sum.splits)

lemma then_do_unfold [simp]: "then_do m k w = (case m w of (Inl e, w1) \<Rightarrow> (Inl e, w1) | (Inr v, w1) \<Rightarrow> k v w1)"
  by (simp add: then_do_def)

lemma logger_simps:
  "logger_info s w = (Inr (), w\<lparr>trace := trace w @ [Log INFO (Text s)]\<rparr>)"
  "logger_error s w = (Inr (), w\<lparr>trace := trace w @ [Log ERROR (Text s)]\<rparr>)"
  by (simp_all add: logger_info_def logger_error_def emit_def reported_def
        logger_info_sink_def logger_error_sink_def)

lemma requests_of_append: "requests_of (xs @ ys) = requests_of xs @ requests_of ys"
  by (induction xs rule: requests_of.induct) simp_all

lemma resource_of_no_id:
  assumes "Instance aws None = Inl (ValueError m)" and "sublist ''Required parameter'' m"
  shows "get_ec2_instance_resource aws None w =
           (Inr None, w\<lparr>trace := trace w @
              [Log ERROR (Text ''No instance ID was found for the lookup operation'')]\<rparr>)"
  using assms by (simp add: get_ec2_instance_resource_def logger_simps returns_def)

lemma locator_unresolved:
  assumes "describe_instances aws name q = (Inr rs, p)" and "length rs \<noteq> 1"
    and "provider w = q"
  shows "get_ec2_instance_id_by_name aws name w =
           (Inr None, w\<lparr>provider := p, trace := trace w @
              [Request (DescribeInstances name),
               Log ERROR (Text ((if rs = [] then ''No EC2 instance found by name: ''
                                 else ''Multiple EC2 instances found by name: '') @ name))]\<rparr>)"
proof (cases "rs = []")
  case True
  with assms show ?thesis
    by (simp add: get_ec2_instance_id_by_name_def call_def logger_simps returns_def)
next
  case False
  with assms have "1 < length rs" by (cases rs) auto
  with assms False show ?thesis
    by (simp add: get_ec2_instance_id_by_name_def call_def logger_simps returns_def)
qed

lemma authorize_ingress_duplicate:
  assumes "sg_authorize_ingress aws sg (ssh_permissions ip) (provider w) =
             (Inl (ClientError ''InvalidPermission.Duplicate'' message opn), p)"
  shows "authorize_ingress aws (Some sg) ip w =
           (Inr None,
            w\<lparr>provider := p,
              trace := trace w @
                [Request (AuthorizeIngress sg (ssh_permissions ip)),
                 Log INFO (Text ''Inbound rules already exist. Nothing to do.'')]\<rparr>)"
  using assms
  by (simp add: authorize_ingress_def ssh_permissions_def call_def logger_simps returns_def)

lemma authorize_ingress_success:
  assumes "sg_authorize_ingress aws sg (ssh_permissions ip) (provider w) = (Inr response, p)"
  shows "authorize_ingress aws (Some sg) ip w =
           (Inr (Some response),
            w\<lparr>provider := p,
              trace := trace w @ [Request (AuthorizeIngress sg (ssh_permissions ip))]\<rparr>)"
  using assms
  by (simp add: authorize_ingress_def ssh_permissions_def call_def)

lemma retry_loop_Inr:
  "retry_loop none exception report function ds problems w = (Inr r, w') \<Longrightarrow>
   (\<exists>w0. function w0 = (Inr r, w')) \<or> (r = none \<and> None \<notin> set ds)"
proof (induction ds arbitrary: problems w)
  case Nil
  then show ?case by simp
next
  case (Cons delay rest)
  obtain x w1 where f: "function (emit [Invoke] w) = (x, w1)"
    by (cases "function (emit [Invoke] w)")
  show ?case
  proof (cases x)
    case (Inr v)
    with Cons.prems f show ?thesis by auto
  next
    case (Inl problem)
    show ?thesis
    proof (cases delay)
      case None
      with Cons.prems f Inl show ?thesis by (simp split: if_splits)
    next
      case (Some d)
      with Cons.prems f Inl have
        "retry_loop none exception report function rest (problems @ [problem])
           (time_sleep d (emit (reported report (RetryFailed problem d)) w1)) = (Inr r, w')"
        by (simp split: if_splits)
      from Cons.IH [OF this] Some show ?thesis by auto
    qed
  qed
qed

lemma wrapped_Inr:
  assumes "wrapped none D exception report function w = (Inr r, w')"
  shows "\<exists>w0. function w0 = (Inr r, w')"
  using retry_loop_Inr [OF assms [unfolded wrapped_def]] by simp

lemma undecorated_not_None:
  "get_instance_public_ip_undecorated aws inst w = (Inr ip, w') \<Longrightarrow> ip \<noteq> None"
  by (auto simp: get_instance_public_ip_undecorated_def call_def raises_def returns_def
           split: prod.splits sum.splits if_splits)

lemma decorated_not_None:
  assumes "get_instance_public_ip aws inst w = (Inr ip, w')"
  shows "ip \<noteq> None"
proof -
  from wrapped_Inr [OF assms [unfolded get_instance_public_ip_def]]
  obtain w0 where "get_instance_public_ip_undecorated aws inst w0 = (Inr ip, w')" ..
  then show ?thesis by (rule undecorated_not_None)
qed

lemma start_instance_ip:
  assumes "start_instance aws name my_ip w = (Inr (instance_id, public_ip), w')"
    and "instance_id \<noteq> None"
  shows "public_ip \<noteq> None"
proof -
  note [simp del] = then_do_unfold
  from assms(1) [unfolded start_instance_def]
  obtain iid inst0 wa wb where
    rest: "(case inst0 of None \<Rightarrow> returns (None, None)
       | Some inst \<Rightarrow>
           then_do (logger_info (''2. Starting EC2 Instance: '' @ str_opt iid @ ''...'')) (\<lambda>_.
           then_do (call (StartInstance inst) (start aws inst)) (\<lambda>_.
           then_do (logger_info (''3. Waiting for EC2 Instance to start: '' @ str_opt iid @
                                 ''...'')) (\<lambda>_.
           then_do (call (WaitUntilRunning inst) (wait_until_running aws inst)) (\<lambda>_.
           then_do (first_group_id aws inst) (\<lambda>gid.
           then_do (logger_info (''4. Getting Security Group by ID: '' @ gid @ ''...'')) (\<lambda>_.
           then_do (first_group_id aws inst) (\<lambda>gid'.
           then_do (get_security_group aws gid') (\<lambda>security_group.
           then_do (logger_info (''5. Authorizing ingress on port 22 for IP: '' @ my_ip @ ''...'')) (\<lambda>_.
           then_do (authorize_ingress aws (Some security_group) my_ip) (\<lambda>_.
           then_do (get_instance_public_ip aws inst) (\<lambda>public_ip.
             returns (iid, public_ip))))))))))))) wb = (Inr (instance_id, public_ip), w')"
    by (elim then_do_Inr) blast
  show ?thesis
  proof (cases inst0)
    case None
    with rest assms(2) show ?thesis by (simp add: returns_def)
  next
    case (Some inst)
    with rest obtain wc where "get_instance_public_ip aws inst wc = (Inr public_ip, w')"
      by (auto simp: returns_def elim!: then_do_Inr)
    then show ?thesis by (rule decorated_not_None)
  qed
qed

lemma example_ec2_simps:
  "describe_instances example_ec2 name p =
     (Inr (if name = ''devbox'' then [\<lparr>Instances = [\<lparr>InstanceId = ''i-0123''\<rparr>]\<rparr>]
           else if name = ''spare'' then [\<lparr>Instances = [\<lparr>InstanceId = ''i-0456''\<rparr>]\<rparr>]
           else if name = ''twin''
           then [\<lparr>Instances = [\<lparr>InstanceId = ''i-0777''\<rparr>]\<rparr>,
                 \<lparr>Instances = [\<lparr>InstanceId = ''i-0888''\<rparr>]\<rparr>]
           else []), p)"
  "Instance example_ec2 None = Inl (ValueError ''Required parameter id not set'')"
  "Instance example_ec2 (Some i) = Inr (InstanceResource i)"
  "SecurityGroup example_ec2 g = Inr (SecurityGroupResource g)"
  "start example_ec2 inst p = (Inr (), p)"
  "wait_until_running example_ec2 inst p = (Inr (), p)"
  "stop example_ec2 inst p = (Inr (), p)"
  "wait_until_stopped example_ec2 inst p = (Inr (), p)"
  "reboot example_ec2 inst p = (Inr (), p)"
  "state_Name example_ec2 inst p =
     (Inr (if resource_id inst = ''i-0123'' then ''running'' else ''stopped''), p)"
  "public_ip_address example_ec2 inst p =
     (Inr (if resource_id inst = ''i-0123'' then Some ''203.0.113.5'' else None), p)"
  "security_groups example_ec2 inst p = (Inr [''sg-1''], p)"
  "sg_authorize_ingress example_ec2 = provider_authorize_ingress"
  by (simp_all add: example_ec2_def)

lemma locator_on_reservations:
  assumes "describe_instances aws name (provider w) = (Inr rs, p)"
  shows "(rs = [] \<longrightarrow> fst (get_ec2_instance_id_by_name aws name w) = Inr None)
       \<and> (rs = [r] \<and> Instances r = i # others \<longrightarrow>
            fst (get_ec2_instance_id_by_name aws name w) = Inr (Some (InstanceId i)))
       \<and> (1 < length rs \<longrightarrow> fst (get_ec2_instance_id_by_name aws name w) = Inr None)"
  using assms
  by (auto simp: get_ec2_instance_id_by_name_def call_def logger_simps returns_def)

lemma retry_loop_failures_traced:
  assumes fn: "\<And>w. function w =
      (case op (provider w) of (r, p) \<Rightarrow> (r, w\<lparr>provider := p, trace := trace w @ evs\<rparr>))"
  shows "attempts op (length es) (provider w) = (map Inl es, p') \<Longrightarrow>
   \<forall>e\<in>set es. exception e \<and> \<not> is_code_403 e \<Longrightarrow>
   length es \<le> length D \<Longrightarrow>
   retry_loop none exception report function (map Some D @ rest) problems w =
   retry_loop none exception report function (map Some (drop (length es) D) @ rest)
     (problems @ es)
     (w\<lparr>provider := p',
        trace := trace w @
          concat (map (\<lambda>(e, d). Invoke # evs @ reported report (RetryFailed e d) @ [Sleep d])
                    (zip es D))\<rparr>)"
proof (induction es arbitrary: D problems w)
  case Nil
  then have "w\<lparr>provider := p'\<rparr> = w" by simp
  then show ?case by simp
next
  case (Cons e es)
  then obtain d D' where D: "D = d # D'" by (cases D) auto
  obtain r p1 where op: "op (provider w) = (r, p1)" by (cases "op (provider w)")
  obtain rs p2 where at: "attempts op (length es) p1 = (rs, p2)"
    by (cases "attempts op (length es) p1")
  from Cons.prems(1) op at have r: "r = Inl e" and rs: "rs = map Inl es" and p2: "p2 = p'"
    by simp_all
  let ?w1 = "w\<lparr>provider := p1,
               trace := trace w @ Invoke # evs @ reported report (RetryFailed e d) @ [Sleep d]\<rparr>"
  have step: "retry_loop none exception report function (map Some D @ rest) problems w =
     retry_loop none exception report function (map Some D' @ rest) (problems @ [e]) ?w1"
    using Cons.prems(2) op r D by (simp add: fn emit_def time_sleep_def)
  have "retry_loop none exception report function (map Some D' @ rest) (problems @ [e]) ?w1 =
     retry_loop none exception report function (map Some (drop (length es) D') @ rest)
     ((problems @ [e]) @ es)
     (?w1\<lparr>provider := p',
        trace := trace ?w1 @
          concat (map (\<lambda>(e, d). Invoke # evs @ reported report (RetryFailed e d) @ [Sleep d])
                    (zip es D'))\<rparr>)"
    using Cons.prems at rs p2 D by (intro Cons.IH) simp_all
  with step show ?case by (simp add: D)
qed

lemma wrapped_traced_success:
  assumes fn: "\<And>w. function w =
      (case op (provider w) of (r, p) \<Rightarrow> (r, w\<lparr>provider := p, trace := trace w @ evs\<rparr>))"
    and "attempts op (Suc k) (provider w) = (map Inl es @ [Inr v], p')"
    and "\<forall>e\<in>set es. exception e \<and> \<not> is_code_403 e"
    and "k \<le> length D"
  shows "wrapped none D exception report function w =
           (Inr v, w\<lparr>provider := p',
              trace := trace w @
                concat (map (\<lambda>(e, d). Invoke # evs @ reported report (RetryFailed e d) @ [Sleep d])
                          (zip es D)) @ Invoke # evs\<rparr>)"
proof -
  from attempts_snoc [OF assms(2)] obtain p1 where
    a: "attempts op k (provider w) = (map Inl es, p1)" and last: "op p1 = (Inr v, p')" by blast
  from attempts_length [OF a] have len: "length es = k" by simp
  let ?w1 = "w\<lparr>provider := p1,
        trace := trace w @
          concat (map (\<lambda>(e, d). Invoke # evs @ reported report (RetryFailed e d) @ [Sleep d])
                    (zip es D))\<rparr>"
  have "wrapped none D exception report function w =
        retry_loop none exception report function (map Some (drop (length es) D) @ [None])
          ([] @ es) ?w1"
    unfolding wrapped_def using a assms(3,4) len
    by (intro retry_loop_failures_traced [OF fn]) simp_all
  also have "\<dots> = (Inr v, ?w1\<lparr>provider := p', trace := trace ?w1 @ Invoke # evs\<rparr>)"
    using last
    by (cases "map Some (drop (length es) D) @ [None]") (simp_all add: fn emit_def)
  finally show ?thesis by simp
qed

lemma wrapped_traced_exhausted:
  assumes fn: "\<And>w. function w =
      (case op (provider w) of (r, p) \<Rightarrow> (r, w\<lparr>provider := p, trace := trace w @ evs\<rparr>))"
    and "attempts op (Suc (length D)) (provider w) = (map Inl es, p')"
    and "\<forall>e\<in>set es. exception e \<and> \<not> is_code_403 e"
  shows "wrapped none D exception report function w =
           (Inl (last es),
            w\<lparr>provider := p',
              trace := trace w @
                concat (map (\<lambda>(e, d). Invoke # evs @ reported report (RetryFailed e d) @ [Sleep d])
                          (zip es D)) @
                Invoke # evs @ reported report (RetryFailedDefinitely es)\<rparr>)"
proof -
  from attempts_length [OF assms(2)] have len: "length es = Suc (length D)" by simp
  then obtain es0 e where es: "es = es0 @ [e]" by (cases es rule: rev_cases) auto
  with len have len0: "length es0 = length D" by simp
  from assms(2) es have "attempts op (Suc (length D)) (provider w) = (map Inl es0 @ [Inl e], p')"
    by simp
  from attempts_snoc [OF this] obtain p1 where
    a: "attempts op (length D) (provider w) = (map Inl es0, p1)" and last: "op p1 = (Inl e, p')"
    by blast
  let ?w1 = "w\<lparr>provider := p1,
        trace := trace w @
          concat (map (\<lambda>(e, d). Invoke # evs @ reported report (RetryFailed e d) @ [Sleep d])
                    (zip es0 D))\<rparr>"
  have "wrapped none D exception report function w =
        retry_loop none exception report function (map Some (drop (length es0) D) @ [None])
          ([] @ es0) ?w1"
    unfolding wrapped_def using a assms(3) len0 es
    by (intro retry_loop_failures_traced [OF fn]) simp_all
  also have "\<dots> = (Inl e, ?w1\<lparr>provider := p',
       trace := trace ?w1 @ Invoke # evs @ reported report (RetryFailedDefinitely es)\<rparr>)"
    using last assms(3) es len0 by (simp add: fn emit_def)
  finally show ?thesis using es len0 by (simp add: zip_append1)
qed

lemma undecorated_traced:
  "get_instance_public_ip_undecorated aws inst w =
     (case public_ip_or_raise aws inst (provider w) of
        (r, p) \<Rightarrow> (r, w\<lparr>provider := p, trace := trace w @ [Request (ReadPublicIp inst)]\<rparr>))"
  by (simp add: get_instance_public_ip_undecorated_def public_ip_or_raise_def call_def
        raises_def returns_def split: prod.splits sum.splits)

lemma attempts_no_address:
  "attempts (public_ip_address aws inst) k p = (map Inr (replicate k None), p') \<Longrightarrow>
   attempts (public_ip_or_raise aws inst) k p =
     (map Inl (replicate k (Exception ''No public IP address found'')), p')"
proof (induction k arbitrary: p)
  case 0
  then show ?case by simp
next
  case (Suc k)
  obtain r p1 where op: "public_ip_address aws inst p = (r, p1)"
    by (cases "public_ip_address aws inst p")
  obtain rs p2 where at: "attempts (public_ip_address aws inst) k p1 = (rs, p2)"
    by (cases "attempts (public_ip_address aws inst) k p1")
  from Suc.prems op at have "r = Inr None" "rs = map Inr (replicate k None)" "p2 = p'"
    by simp_all
  with Suc.IH [of p1] op at show ?case by (simp add: public_ip_or_raise_def)
qed

lemma public_ip_after_k_polls:
  assumes "attempts (public_ip_address aws inst) (Suc k) (provider w) =
             (map Inr (replicate k None) @ [Inr (Some ip)], p')"
    and "k \<le> length default_delays"
  shows "get_instance_public_ip aws inst w =
           (Inr (Some ip),
            w\<lparr>provider := p',
              trace := trace w @ concat (map (no_ip_yet inst) (take k default_delays)) @
                       [Invoke, Request (ReadPublicIp inst)]\<rparr>)"
proof -
  let ?e = "Exception ''No public IP address found''"
  from attempts_snoc [OF assms(1)] obtain p1 where
    a: "attempts (public_ip_address aws inst) k (provider w) = (map Inr (replicate k None), p1)"
    and last: "public_ip_address aws inst p1 = (Inr (Some ip), p')" by blast
  have "attempts (public_ip_or_raise aws inst) (k + 1) (provider w) =
          (map Inl (replicate k ?e) @ [Inr (Some ip)], p')"
    unfolding attempts_add using attempts_no_address [OF a] last
    by (simp add: public_ip_or_raise_def)
  then have b: "attempts (public_ip_or_raise aws inst) (Suc k) (provider w) =
          (map Inl (replicate k ?e) @ [Inr (Some ip)], p')" by simp
  have c: "\<forall>e\<in>set (replicate k ?e). is_Exception e \<and> \<not> is_code_403 e" by simp
  have z: "zip (replicate k ?e) default_delays = map (\<lambda>d. (?e, d)) (take k default_delays)"
    using assms(2) by (simp add: zip_replicate1)
  have "get_instance_public_ip aws inst w =
     (Inr (Some ip), w\<lparr>provider := p',
              trace := trace w @
                concat (map (\<lambda>(e, d). Invoke # [Request (ReadPublicIp inst)] @
                               reported logger_info_sink (RetryFailed e d) @ [Sleep d])
                          (zip (replicate k ?e) default_delays)) @
                Invoke # [Request (ReadPublicIp inst)]\<rparr>)"
    unfolding get_instance_public_ip_def
    by (rule wrapped_traced_success [OF undecorated_traced b c assms(2)])
  also have "concat (map (\<lambda>(e, d). Invoke # [Request (ReadPublicIp inst)] @
                               reported logger_info_sink (RetryFailed e d) @ [Sleep d])
                          (zip (replicate k ?e) default_delays)) =
             concat (map (no_ip_yet inst) (take k default_delays))"
    unfolding z by (simp add: comp_def no_ip_yet_def [abs_def] reported_def logger_info_sink_def)
  finally show ?thesis by simp
qed

lemma public_ip_never_appears:
  assumes "attempts (public_ip_address aws inst) (Suc (length default_delays)) (provider w) =
             (map Inr (replicate (Suc (length default_delays)) None), p')"
  shows "get_instance_public_ip aws inst w =
           (Inl (Exception ''No public IP address found''),
            w\<lparr>provider := p',
              trace := trace w @ concat (map (no_ip_yet inst) default_delays) @
                       [Invoke, Request (ReadPublicIp inst),
                        Log INFO (RetryFailedDefinitely
                          (replicate (Suc (length default_delays))
                             (Exception ''No public IP address found'')))]\<rparr>)"
proof -
  let ?e = "Exception ''No public IP address found''"
  let ?es = "replicate (Suc (length default_delays)) ?e"
  have b: "attempts (public_ip_or_raise aws inst) (Suc (length default_delays)) (provider w) =
          (map Inl ?es, p')"
    by (rule attempts_no_address [OF assms])
  have c: "\<forall>e\<in>set ?es. is_Exception e \<and> \<not> is_code_403 e" by simp
  have z: "zip ?es default_delays = map (\<lambda>d. (?e, d)) default_delays"
    by (simp add: zip_replicate1 del: replicate.simps)
  have "get_instance_public_ip aws inst w =
     (Inl (last ?es), w\<lparr>provider := p',
              trace := trace w @
                concat (map (\<lambda>(e, d). Invoke # [Request (ReadPublicIp inst)] @
                               reported logger_info_sink (RetryFailed e d) @ [Sleep d])
                          (zip ?es default_delays)) @
                Invoke # [Request (ReadPublicIp inst)] @
                reported logger_info_sink (RetryFailedDefinitely ?es)\<rparr>)"
    unfolding get_instance_public_ip_def
    by (rule wrapped_traced_exhausted [OF undecorated_traced b c])
  also have "concat (map (\<lambda>(e, d). Invoke # [Request (ReadPublicIp inst)] @
                               reported logger_info_sink (RetryFailed e d) @ [Sleep d])
                          (zip ?es default_delays)) =
             concat (map (no_ip_yet inst) default_delays)"
    unfolding z by (simp add: comp_def no_ip_yet_def [abs_def] reported_def logger_info_sink_def)
  finally show ?thesis by (simp add: reported_def logger_info_sink_def)
qed

lemma warming_ec2_simps:
  "describe_instances warming_ec2 name n =
     (Inr (if name = ''devbox'' then [\<lparr>Instances = [\<lparr>InstanceId = ''i-0123''\<rparr>]\<rparr>] else []), n)"
  "Instance warming_ec2 (Some i) = Inr (InstanceResource i)"
  "state_Name warming_ec2 inst n = (Inr (if n < 2 then ''pending'' else ''running''), n)"
  "public_ip_address warming_ec2 inst n =
     (Inr (if n < 2 then None else Some ''203.0.113.5''), Suc n)"
  by (simp_all add: warming_ec2_def)

section \<open>The claims\<close>

text \<open>
  Claim C1. An operation on the provider's state whose first \<open>k\<close> calls raise exceptions
  that the handler catches and that carry no code 403, and whose next call returns \<open>v\<close>,
  with \<open>k\<close> at most the length of the delay schedule \<open>D\<close>: the wrapper returns
  \<open>v\<close>, leaves the state the \<open>k + 1\<close> calls leave, and its trace is one report and
  one sleep after each failed call, then the last call; it calls the operation
  \<open>k + 1\<close> times.
\<close>

theorem retry_succeeds_after_k_failures:
  assumes "attempts op (Suc k) (provider w) = (map Inl es @ [Inr v], p')"
    and "\<forall>e\<in>set es. exception e \<and> \<not> is_code_403 e"
    and "k \<le> length D"
  shows "wrapped none D exception report (on_provider op) w =
           (Inr v, w\<lparr>provider := p',
                        trace := trace w @ concat (map (retry_events report) (zip es D)) @ [Invoke]\<rparr>)
         \<and> invocations (snd (wrapped none D exception report (on_provider op) w)) =
             invocations w + (k + 1)"
proof -
  from attempts_snoc [OF assms(1)] obtain p1 where
    a: "attempts op k (provider w) = (map Inl es, p1)" and last: "op p1 = (Inr v, p')" by blast
  from attempts_length [OF a] have len: "length es = k" by simp
  let ?w1 = "w\<lparr>provider := p1, trace := trace w @ concat (map (retry_events report) (zip es D))\<rparr>"
  have "wrapped none D exception report (on_provider op) w =
        retry_loop none exception report (on_provider op) (map Some (drop (length es) D) @ [None])
          ([] @ es) ?w1"
    unfolding wrapped_def using a assms(2,3) len by (intro retry_loop_failures) simp_all
  also have "\<dots> = (Inr v, ?w1\<lparr>provider := p', trace := trace ?w1 @ [Invoke]\<rparr>)"
    using last by (cases "map Some (drop (length es) D) @ [None]") (simp_all add: on_provider_def emit_def)
  finally have eq: "wrapped none D exception report (on_provider op) w =
           (Inr v, w\<lparr>provider := p',
                        trace := trace w @ concat (map (retry_events report) (zip es D)) @ [Invoke]\<rparr>)"
    by simp
  have "length (zip es D) = k" using len assms(3) by simp
  then show ?thesis
    unfolding eq by (simp add: invocations_def concat_retry_events_Invoke)
qed

theorem retry_succeeds_after_k_failures_witness:
  "attempts (fails_in_turn [Exception ''No public IP address found'',
                            Exception ''No public IP address found''] (Some ''203.0.113.5''))
     (Suc 2) (provider \<lparr>provider = 0, trace = []\<rparr>) =
     (map Inl [Exception ''No public IP address found'', Exception ''No public IP address found'']
        @ [Inr (Some ''203.0.113.5'')], 3)
   \<and> is_Exception (Exception ''No public IP address found'')
   \<and> \<not> is_code_403 (Exception ''No public IP address found'')
   \<and> 2 \<le> length default_delays
   \<and> wrapped None default_delays is_Exception logger_info_sink
        (on_provider (fails_in_turn [Exception ''No public IP address found'',
                                     Exception ''No public IP address found'']
                        (Some ''203.0.113.5'')))
        \<lparr>provider = 0, trace = []\<rparr> =
      (Inr (Some ''203.0.113.5''),
       \<lparr>provider = 3,
        trace = [Invoke, Log INFO (RetryFailed (Exception ''No public IP address found'') 0), Sleep 0,
                 Invoke, Log INFO (RetryFailed (Exception ''No public IP address found'') 1), Sleep 1,
                 Invoke]\<rparr>)"
proof -
  let ?e = "Exception ''No public IP address found''"
  let ?op = "fails_in_turn [?e, ?e] (Some ''203.0.113.5'')"
  have h1: "attempts ?op (Suc 2) (provider \<lparr>provider = 0, trace = []\<rparr>) =
              (map Inl [?e, ?e] @ [Inr (Some ''203.0.113.5'')], 3)"
    by (simp add: fails_in_turn_def numeral_2_eq_2)
  have h2: "\<forall>e \<in> set [?e, ?e]. is_Exception e \<and> \<not> is_code_403 e" by simp
  have h3: "2 \<le> length default_delays" by (simp add: default_delays_def)
  from retry_succeeds_after_k_failures
         [where op = "?op" and w = "\<lparr>provider = 0, trace = []\<rparr>" and none = None
            and report = logger_info_sink, OF h1 h2 h3] h1 h2 h3
  show ?thesis
    by (simp add: default_delays_def retry_events_def reported_def logger_info_sink_def)
qed

text \<open>
  Claim C2. Whatever the delay schedule, the caught class and the sink: when the first
  call of the operation raises an exception whose \<open>code\<close> attribute is 403, the wrapper
  raises that exception, and all it has done is that one call: no report, no sleep, no
  second call.
\<close>

theorem retry_reraises_403_at_once:
  assumes "op (provider w) = (Inl e, p1)" and "is_code_403 e"
  shows "wrapped none D exception report (on_provider op) w =
           (Inl e, w\<lparr>provider := p1, trace := trace w @ [Invoke]\<rparr>)"
  using assms by (cases D) (simp_all add: wrapped_def on_provider_def emit_def)

theorem retry_reraises_403_at_once_witness:
  "fails_in_turn [OtherError ''HTTPError'' True (Some (AInt 403)) ''Forbidden''] (Some ''ok'')
     (provider \<lparr>provider = 0, trace = []\<rparr>) =
     (Inl (OtherError ''HTTPError'' True (Some (AInt 403)) ''Forbidden''), 1)
   \<and> is_code_403 (OtherError ''HTTPError'' True (Some (AInt 403)) ''Forbidden'')
   \<and> wrapped None default_delays is_Exception logger_info_sink
        (on_provider (fails_in_turn [OtherError ''HTTPError'' True (Some (AInt 403)) ''Forbidden'']
                        (Some ''ok'')))
        \<lparr>provider = 0, trace = []\<rparr> =
      (Inl (OtherError ''HTTPError'' True (Some (AInt 403)) ''Forbidden''),
       \<lparr>provider = 1, trace = [Invoke]\<rparr>)"
proof -
  let ?e = "OtherError ''HTTPError'' True (Some (AInt 403)) ''Forbidden''"
  have h1: "fails_in_turn [?e] (Some ''ok'') (provider \<lparr>provider = 0, trace = []\<rparr>) = (Inl ?e, 1)"
    by (simp add: fails_in_turn_def)
  have h2: "is_code_403 ?e" by simp
  from retry_reraises_403_at_once
         [where op = "fails_in_turn [?e] (Some ''ok'')" and w = "\<lparr>provider = 0, trace = []\<rparr>"
            and none = None and D = default_delays and exception = is_Exception
            and report = logger_info_sink, OF h1 h2] h1 h2
  show ?thesis by simp
qed

text \<open>
  Claim C3. When each of the \<open>length D + 1\<close> calls raises an exception that the handler
  catches and that carries no code 403, the wrapper makes exactly these calls, reports
  the terminal failure with the list of all these exceptions in the order they occurred,
  as its last act, and raises the last of them.
\<close>

theorem retry_exhausted_reports_all_failures:
  assumes "attempts op (Suc (length D)) (provider w) = (map Inl es, p')"
    and "\<forall>e\<in>set es. exception e \<and> \<not> is_code_403 e"
  shows "wrapped none D exception report (on_provider op) w =
           (Inl (last es),
            w\<lparr>provider := p',
              trace := trace w @ concat (map (retry_events report) (zip es D)) @
                       Invoke # reported report (RetryFailedDefinitely es)\<rparr>)
         \<and> invocations (snd (wrapped none D exception report (on_provider op) w)) =
             invocations w + (length D + 1)"
proof -
  from attempts_length [OF assms(1)] have len: "length es = Suc (length D)" by simp
  then obtain es0 e where es: "es = es0 @ [e]" by (cases es rule: rev_cases) auto
  with len have len0: "length es0 = length D" by simp
  from assms(1) es have "attempts op (Suc (length D)) (provider w) = (map Inl es0 @ [Inl e], p')" by simp
  from attempts_snoc [OF this] obtain p1 where
    a: "attempts op (length D) (provider w) = (map Inl es0, p1)" and last: "op p1 = (Inl e, p')" by blast
  let ?w1 = "w\<lparr>provider := p1, trace := trace w @ concat (map (retry_events report) (zip es0 D))\<rparr>"
  have "wrapped none D exception report (on_provider op) w =
        retry_loop none exception report (on_provider op) (map Some (drop (length es0) D) @ [None])
          ([] @ es0) ?w1"
    unfolding wrapped_def using a assms(2) len0 es by (intro retry_loop_failures) simp_all
  also have "\<dots> = (Inl e, ?w1\<lparr>provider := p',
       trace := trace ?w1 @ Invoke # reported report (RetryFailedDefinitely es)\<rparr>)"
    using last assms(2) es len0 by (simp add: on_provider_def emit_def)
  finally have eq: "wrapped none D exception report (on_provider op) w =
           (Inl (last es),
            w\<lparr>provider := p',
              trace := trace w @ concat (map (retry_events report) (zip es D)) @
                       Invoke # reported report (RetryFailedDefinitely es)\<rparr>)"
    using es len0 by (simp add: zip_append1)
  have "length (zip es D) = length D" using len by simp
  then show ?thesis
    unfolding eq by (simp add: invocations_def concat_retry_events_Invoke reported_no_Invoke)
qed

theorem retry_exhausted_reports_all_failures_witness:
  "attempts (fails_in_turn [ValueError ''first'', ValueError ''second'', ValueError ''third'']
               ''never'')
     (Suc (length [5, 7 :: nat])) (provider \<lparr>provider = 0, trace = []\<rparr>) =
     (map Inl [ValueError ''first'', ValueError ''second'', ValueError ''third''], 3)
   \<and> is_Exception (ValueError ''first'') \<and> \<not> is_code_403 (ValueError ''first'')
   \<and> is_Exception (ValueError ''second'') \<and> \<not> is_code_403 (ValueError ''second'')
   \<and> is_Exception (ValueError ''third'') \<and> \<not> is_code_403 (ValueError ''third'')
   \<and> wrapped '''' [5, 7] is_Exception logger_info_sink
        (on_provider (fails_in_turn [ValueError ''first'', ValueError ''second'',
                                     ValueError ''third''] ''never''))
        \<lparr>provider = 0, trace = []\<rparr> =
      (Inl (ValueError ''third''),
       \<lparr>provider = 3,
        trace = [Invoke, Log INFO (RetryFailed (ValueError ''first'') 5), Sleep 5,
                 Invoke, Log INFO (RetryFailed (ValueError ''second'') 7), Sleep 7,
                 Invoke,
                 Log INFO (RetryFailedDefinitely
                   [ValueError ''first'', ValueError ''second'', ValueError ''third''])]\<rparr>)"
proof -
  let ?es = "[ValueError ''first'', ValueError ''second'', ValueError ''third'']"
  let ?op = "fails_in_turn ?es ''never''"
  have h1: "attempts ?op (Suc (length [5, 7 :: nat])) (provider \<lparr>provider = 0, trace = []\<rparr>) =
              (map Inl ?es, 3)"
    by (simp add: fails_in_turn_def)
  have h2: "\<forall>e \<in> set ?es. is_Exception e \<and> \<not> is_code_403 e" by simp
  from retry_exhausted_reports_all_failures
         [where op = "?op" and w = "\<lparr>provider = 0, trace = []\<rparr>" and none = "''''"
            and report = logger_info_sink, OF h1 h2] h1 h2
  show ?thesis
    by (simp add: retry_events_def reported_def logger_info_sink_def)
qed

text \<open>
  Claim C4. The locator tests the number of reservations and nothing else. On a query
  result of one reservation that lists two instances of the name, it logs no error and
  returns the identifier of the instance listed first, and \<open>stop_instance\<close> then sends
  the stop request to that instance: an identifier picked for an ambiguous name.
\<close>

theorem locator_returns_first_of_two_instances_of_a_name:
  "describe_instances pair_ec2 ''devbox'' Map.empty =
     (Inr [\<lparr>Instances = [\<lparr>InstanceId = ''i-0aaa''\<rparr>, \<lparr>InstanceId = ''i-0bbb''\<rparr>]\<rparr>], Map.empty)
   \<and> get_ec2_instance_id_by_name pair_ec2 ''devbox'' \<lparr>provider = Map.empty, trace = []\<rparr> =
     (Inr (Some ''i-0aaa''),
      \<lparr>provider = Map.empty, trace = [Request (DescribeInstances ''devbox'')]\<rparr>)
   \<and> stop_instance pair_ec2 ''devbox'' \<lparr>provider = Map.empty, trace = []\<rparr> =
     (Inr (Some ''i-0aaa''),
      \<lparr>provider = Map.empty,
       trace = [Log INFO (Text ''1. Getting EC2 Instance by name devbox...''),
                Request (DescribeInstances ''devbox''),
                Log INFO (Text ''2. Stopping EC2 Instance: i-0aaa...''),
                Request (StopInstance (InstanceResource ''i-0aaa'')),
                Log INFO (Text ''3. Waiting for EC2 Instance to stop: i-0aaa...''),
                Request (WaitUntilStopped (InstanceResource ''i-0aaa''))]\<rparr>)"
  by (simp add: pair_ec2_def example_ec2_def stop_instance_def get_ec2_instance_id_by_name_def
        get_ec2_instance_resource_def call_def returns_def logger_simps)

text \<open>
  Claim C5. For a name that the query matches with no reservation or with several, and a
  resource factory that refuses a missing identifier as boto3 does (a \<open>ValueError\<close> whose
  text contains "Required parameter"): start and status return \<open>(None, None)\<close>, stop and
  reboot return \<open>None\<close>, and in each of the four the only request sent to the provider is
  the query itself, so the provider's state is the one the query left.
\<close>

theorem unresolved_name_aborts_every_operation:
  assumes "describe_instances aws name (provider w) = (Inr rs, p)"
    and "length rs \<noteq> 1"
    and "Instance aws None = Inl (ValueError m)"
    and "sublist ''Required parameter'' m"
  shows "fst (start_instance aws name my_ip w) = Inr (None, None)
       \<and> fst (stop_instance aws name w) = Inr None
       \<and> fst (reboot_instance aws name w) = Inr None
       \<and> fst (get_instance_status aws name w) = Inr (None, None)
       \<and> (\<forall>w' \<in> {snd (start_instance aws name my_ip w), snd (stop_instance aws name w),
                   snd (reboot_instance aws name w), snd (get_instance_status aws name w)}.
            provider w' = p \<and>
            requests_of (trace w') = requests_of (trace w) @ [DescribeInstances name])"
proof -
  note loc = locator_unresolved [OF assms(1,2)] and res = resource_of_no_id [OF assms(3,4)]
  have start: "fst (start_instance aws name my_ip w) = Inr (None, None)"
    "provider (snd (start_instance aws name my_ip w)) = p"
    "requests_of (trace (snd (start_instance aws name my_ip w))) =
       requests_of (trace w) @ [DescribeInstances name]"
    unfolding start_instance_def
    by (simp_all add: loc res returns_def requests_of_append logger_simps)
  have stop: "fst (stop_instance aws name w) = Inr None"
    "provider (snd (stop_instance aws name w)) = p"
    "requests_of (trace (snd (stop_instance aws name w))) =
       requests_of (trace w) @ [DescribeInstances name]"
    unfolding stop_instance_def
    by (simp_all add: loc res returns_def requests_of_append logger_simps)
  have reboot: "fst (reboot_instance aws name w) = Inr None"
    "provider (snd (reboot_instance aws name w)) = p"
    "requests_of (trace (snd (reboot_instance aws name w))) =
       requests_of (trace w) @ [DescribeInstances name]"
    unfolding reboot_instance_def
    by (simp_all add: loc res returns_def requests_of_append logger_simps)
  have status: "fst (get_instance_status aws name w) = Inr (None, None)"
    "provider (snd (get_instance_status aws name w)) = p"
    "requests_of (trace (snd (get_instance_status aws name w))) =
       requests_of (trace w) @ [DescribeInstances name]"
    unfolding get_instance_status_def
    by (simp_all add: loc res returns_def requests_of_append logger_simps)
  from start stop reboot status show ?thesis by simp
qed

theorem unresolved_name_aborts_every_operation_witness:
  "describe_instances example_ec2 ''nobody'' (provider \<lparr>provider = Map.empty, trace = []\<rparr>) =
     (Inr [], Map.empty)
   \<and> Instance example_ec2 None = Inl (ValueError ''Required parameter id not set'')
   \<and> sublist ''Required parameter'' ''Required parameter id not set''
   \<and> fst (start_instance example_ec2 ''nobody'' ''198.51.100.7''
            \<lparr>provider = Map.empty, trace = []\<rparr>) = Inr (None, None)
   \<and> fst (stop_instance example_ec2 ''nobody'' \<lparr>provider = Map.empty, trace = []\<rparr>) = Inr None
   \<and> fst (reboot_instance example_ec2 ''nobody'' \<lparr>provider = Map.empty, trace = []\<rparr>) = Inr None
   \<and> fst (get_instance_status example_ec2 ''nobody'' \<lparr>provider = Map.empty, trace = []\<rparr>) =
       Inr (None, None)
   \<and> requests_of (trace (snd (stop_instance example_ec2 ''nobody''
                                 \<lparr>provider = Map.empty, trace = []\<rparr>))) =
       [DescribeInstances ''nobody'']"
proof -
  have h1: "describe_instances example_ec2 ''nobody''
              (provider \<lparr>provider = Map.empty, trace = []\<rparr>) = (Inr [], Map.empty)"
    by (simp add: example_ec2_simps)
  have h2: "length ([] :: reservation list) \<noteq> 1" by simp
  have h3: "Instance example_ec2 None = Inl (ValueError ''Required parameter id not set'')"
    by (simp add: example_ec2_simps)
  have h4: "sublist ''Required parameter'' ''Required parameter id not set''"
    by (simp add: sublist_Cons_right)
  from unresolved_name_aborts_every_operation [OF h1 h2 h3 h4, of "''198.51.100.7''"] h1 h3 h4
  show ?thesis by simp
qed

text \<open>
  Claim C6. For a name that resolves to an instance whose state the provider reports as
  \<open>st\<close>. If \<open>st\<close> is "stopped", status returns \<open>("stopped", "0.0.0.0")\<close> in the world
  the read of the state left: nothing was done to fetch an address. Otherwise the address
  is fetched under the retry wrapper: when the provider has no address at the first
  \<open>k\<close> reads (\<open>k\<close> at most the six delays of the default schedule) and the address
  \<open>ip\<close> at the next, status has read the address \<open>k + 1\<close> times, with a report to
  \<open>logger.info\<close> and a sleep of the scheduled delay after each empty read, reads the
  state again and returns that state name with \<open>ip\<close>; when the provider has no address
  at any of the seven reads, status reports the terminal failure and raises "No public IP
  address found" without returning.
\<close>

theorem status_stopped_short_circuit:
  assumes "get_ec2_instance_id_by_name aws name w = (Inr instance_id, w1)"
    and "get_ec2_instance_resource aws instance_id w1 = (Inr (Some inst), w2)"
    and "state_Name aws inst (provider w2) = (Inr st, p3)"
  shows "(st = ''stopped'' \<longrightarrow>
            get_instance_status aws name w =
              (Inr (Some ''stopped'', Some ''0.0.0.0''),
               w2\<lparr>provider := p3, trace := trace w2 @ [Request (ReadState inst)]\<rparr>))
       \<and> (st \<noteq> ''stopped'' \<and> k \<le> length default_delays \<and>
          attempts (public_ip_address aws inst) (Suc k) p3 =
            (map Inr (replicate k None) @ [Inr (Some ip)], p4) \<and>
          state_Name aws inst p4 = (Inr st', p5) \<longrightarrow>
            get_instance_status aws name w =
              (Inr (Some st', Some ip),
               w2\<lparr>provider := p5,
                  trace := trace w2 @ Request (ReadState inst) #
                           concat (map (no_ip_yet inst) (take k default_delays)) @
                           [Invoke, Request (ReadPublicIp inst), Request (ReadState inst)]\<rparr>))
       \<and> (st \<noteq> ''stopped'' \<and>
          attempts (public_ip_address aws inst) (Suc (length default_delays)) p3 =
            (map Inr (replicate (Suc (length default_delays)) None), p6) \<longrightarrow>
            get_instance_status aws name w =
              (Inl (Exception ''No public IP address found''),
               w2\<lparr>provider := p6,
                  trace := trace w2 @ Request (ReadState inst) #
                           concat (map (no_ip_yet inst) default_delays) @
                           [Invoke, Request (ReadPublicIp inst),
                            Log INFO (RetryFailedDefinitely
                              (replicate (Suc (length default_delays))
                                 (Exception ''No public IP address found'')))]\<rparr>))"
proof (intro conjI impI)
  assume "st = ''stopped''"
  with assms show "get_instance_status aws name w =
              (Inr (Some ''stopped'', Some ''0.0.0.0''),
               w2\<lparr>provider := p3, trace := trace w2 @ [Request (ReadState inst)]\<rparr>)"
    by (simp add: get_instance_status_def call_def returns_def)
next
  let ?w3 = "w2\<lparr>provider := p3, trace := trace w2 @ [Request (ReadState inst)]\<rparr>"
  assume h: "st \<noteq> ''stopped'' \<and> k \<le> length default_delays \<and>
          attempts (public_ip_address aws inst) (Suc k) p3 =
            (map Inr (replicate k None) @ [Inr (Some ip)], p4) \<and>
          state_Name aws inst p4 = (Inr st', p5)"
  then have a: "attempts (public_ip_address aws inst) (Suc k) (provider ?w3) =
            (map Inr (replicate k None) @ [Inr (Some ip)], p4)" by simp
  from h have k: "k \<le> length default_delays" by simp
  note fetch = public_ip_after_k_polls [OF a k]
  from assms h show "get_instance_status aws name w =
              (Inr (Some st', Some ip),
               w2\<lparr>provider := p5,
                  trace := trace w2 @ Request (ReadState inst) #
                           concat (map (no_ip_yet inst) (take k default_delays)) @
                           [Invoke, Request (ReadPublicIp inst), Request (ReadState inst)]\<rparr>)"
    by (simp add: get_instance_status_def call_def returns_def fetch)
next
  let ?w3 = "w2\<lparr>provider := p3, trace := trace w2 @ [Request (ReadState inst)]\<rparr>"
  assume h: "st \<noteq> ''stopped'' \<and>
          attempts (public_ip_address aws inst) (Suc (length default_delays)) p3 =
            (map Inr (replicate (Suc (length default_delays)) None), p6)"
  then have a: "attempts (public_ip_address aws inst) (Suc (length default_delays)) (provider ?w3) =
            (map Inr (replicate (Suc (length default_delays)) None), p6)" by simp
  note fetch = public_ip_never_appears [OF a]
  from assms h show "get_instance_status aws name w =
              (Inl (Exception ''No public IP address found''),
               w2\<lparr>provider := p6,
                  trace := trace w2 @ Request (ReadState inst) #
                           concat (map (no_ip_yet inst) default_delays) @
                           [Invoke, Request (ReadPublicIp inst),
                            Log INFO (RetryFailedDefinitely
                              (replicate (Suc (length default_delays))
                                 (Exception ''No public IP address found'')))]\<rparr>)"
    by (simp add: get_instance_status_def call_def returns_def fetch)
qed

theorem status_stopped_short_circuit_witness:
  "get_instance_status example_ec2 ''spare'' \<lparr>provider = Map.empty, trace = []\<rparr> =
     (Inr (Some ''stopped'', Some ''0.0.0.0''),
      \<lparr>provider = Map.empty,
       trace = [Request (DescribeInstances ''spare''),
                Request (ReadState (InstanceResource ''i-0456''))]\<rparr>)
   \<and> get_instance_status warming_ec2 ''devbox'' \<lparr>provider = 0, trace = []\<rparr> =
     (Inr (Some ''running'', Some ''203.0.113.5''),
      \<lparr>provider = 3,
       trace = [Request (DescribeInstances ''devbox''),
                Request (ReadState (InstanceResource ''i-0123'')),
                Invoke, Request (ReadPublicIp (InstanceResource ''i-0123'')),
                Log INFO (RetryFailed (Exception ''No public IP address found'') 0), Sleep 0,
                Invoke, Request (ReadPublicIp (InstanceResource ''i-0123'')),
                Log INFO (RetryFailed (Exception ''No public IP address found'') 1), Sleep 1,
                Invoke, Request (ReadPublicIp (InstanceResource ''i-0123'')),
                Request (ReadState (InstanceResource ''i-0123''))]\<rparr>)
   \<and> fst (get_instance_status (warming_ec2\<lparr>public_ip_address := \<lambda>_ n. (Inr None, Suc n)\<rparr>)
            ''devbox'' \<lparr>provider = 0, trace = []\<rparr>) =
       Inl (Exception ''No public IP address found'')
   \<and> invocations (snd (get_instance_status
                          (warming_ec2\<lparr>public_ip_address := \<lambda>_ n. (Inr None, Suc n)\<rparr>)
                          ''devbox'' \<lparr>provider = 0, trace = []\<rparr>)) = 7"
proof -
  let ?i = "InstanceResource ''i-0123''"
  let ?never = "warming_ec2\<lparr>public_ip_address := \<lambda>_ n. (Inr None, Suc n)\<rparr>"
  have s1: "get_ec2_instance_id_by_name example_ec2 ''spare''
              \<lparr>provider = Map.empty, trace = []\<rparr> =
            (Inr (Some ''i-0456''),
             \<lparr>provider = Map.empty, trace = [Request (DescribeInstances ''spare'')]\<rparr>)"
    by (simp add: get_ec2_instance_id_by_name_def call_def example_ec2_simps)
  have s2: "get_ec2_instance_resource example_ec2 (Some ''i-0456'') w =
              (Inr (Some (InstanceResource ''i-0456'')), w)" for w :: "rule_sets world"
    by (simp add: get_ec2_instance_resource_def example_ec2_simps returns_def)
  have s3: "state_Name example_ec2 (InstanceResource ''i-0456'')
              (provider \<lparr>provider = Map.empty :: rule_sets,
                         trace = [Request (DescribeInstances ''spare'')]\<rparr>) =
              (Inr ''stopped'', Map.empty)"
    by (simp add: example_ec2_simps)
  have d1: "get_ec2_instance_id_by_name warming_ec2 ''devbox'' \<lparr>provider = 0, trace = []\<rparr> =
            (Inr (Some ''i-0123''),
             \<lparr>provider = 0, trace = [Request (DescribeInstances ''devbox'')]\<rparr>)"
    by (simp add: get_ec2_instance_id_by_name_def call_def warming_ec2_simps)
  have d2: "get_ec2_instance_resource warming_ec2 (Some ''i-0123'') w = (Inr (Some ?i), w)"
    for w :: "nat world"
    by (simp add: get_ec2_instance_resource_def warming_ec2_simps returns_def)
  have d3: "state_Name warming_ec2 ?i
              (provider \<lparr>provider = 0 :: nat, trace = [Request (DescribeInstances ''devbox'')]\<rparr>) =
              (Inr ''pending'', 0)"
    by (simp add: warming_ec2_simps)
  have d4: "attempts (public_ip_address warming_ec2 ?i) (Suc 2) 0 =
              (map Inr (replicate 2 None) @ [Inr (Some ''203.0.113.5'')], 3)"
    by (simp add: warming_ec2_simps numeral_2_eq_2)
  have d5: "state_Name warming_ec2 ?i 3 = (Inr ''running'', 3)"
    by (simp add: warming_ec2_simps)
  have d6: "(2 :: nat) \<le> length default_delays" by (simp add: default_delays_def)
  have n1: "get_ec2_instance_id_by_name ?never ''devbox'' \<lparr>provider = 0, trace = []\<rparr> =
            (Inr (Some ''i-0123''),
             \<lparr>provider = 0, trace = [Request (DescribeInstances ''devbox'')]\<rparr>)"
    by (simp add: get_ec2_instance_id_by_name_def call_def warming_ec2_simps)
  have n2: "get_ec2_instance_resource ?never (Some ''i-0123'') w = (Inr (Some ?i), w)"
    for w :: "nat world"
    by (simp add: get_ec2_instance_resource_def warming_ec2_simps returns_def)
  have n3: "state_Name ?never ?i
              (provider \<lparr>provider = 0 :: nat, trace = [Request (DescribeInstances ''devbox'')]\<rparr>) =
              (Inr ''pending'', 0)"
    by (simp add: warming_ec2_simps)
  have n4: "attempts (public_ip_address ?never ?i) (Suc (length default_delays)) 0 =
              (map Inr (replicate (Suc (length default_delays)) None), 7)"
    by (simp add: default_delays_def)
  from status_stopped_short_circuit [OF s1 s2 s3]
  have a: "get_instance_status example_ec2 ''spare'' \<lparr>provider = Map.empty, trace = []\<rparr> =
     (Inr (Some ''stopped'', Some ''0.0.0.0''),
      \<lparr>provider = Map.empty,
       trace = [Request (DescribeInstances ''spare''),
                Request (ReadState (InstanceResource ''i-0456''))]\<rparr>)"
    by simp
  from status_stopped_short_circuit
         [OF d1 d2 d3, where k = 2 and ip = "''203.0.113.5''" and ?p4.0 = 3
            and st' = "''running''" and ?p5.0 = 3] d4 d5 d6
  have b: "get_instance_status warming_ec2 ''devbox'' \<lparr>provider = 0, trace = []\<rparr> =
     (Inr (Some ''running'', Some ''203.0.113.5''),
      \<lparr>provider = 3,
       trace = [Request (DescribeInstances ''devbox''), Request (ReadState ?i),
                Invoke, Request (ReadPublicIp ?i),
                Log INFO (RetryFailed (Exception ''No public IP address found'') 0), Sleep 0,
                Invoke, Request (ReadPublicIp ?i),
                Log INFO (RetryFailed (Exception ''No public IP address found'') 1), Sleep 1,
                Invoke, Request (ReadPublicIp ?i), Request (ReadState ?i)]\<rparr>)"
    by (simp add: default_delays_def no_ip_yet_def)
  from status_stopped_short_circuit [OF n1 n2 n3, where ?p6.0 = 7] n4
  have c: "get_instance_status ?never ''devbox'' \<lparr>provider = 0, trace = []\<rparr> =
     (Inl (Exception ''No public IP address found''),
      \<lparr>provider = 7,
       trace = Request (DescribeInstances ''devbox'') # Request (ReadState ?i) #
               concat (map (no_ip_yet ?i) default_delays) @
               [Invoke, Request (ReadPublicIp ?i),
                Log INFO (RetryFailedDefinitely
                  (replicate (Suc (length default_delays))
                     (Exception ''No public IP address found'')))]\<rparr>)"
    by simp
  have "invocations (snd (get_instance_status ?never ''devbox'' \<lparr>provider = 0, trace = []\<rparr>)) = 7"
    unfolding c by (simp add: invocations_def default_delays_def no_ip_yet_def)
  with a b c show ?thesis by simp
qed

text \<open>
  Claim C7. Against a provider that answers a rule it already holds with the
  duplicate-permission error, two calls of the authorizer in a row with the same existing
  rule set and the same address both return without raising; the second returns
  \<open>None\<close> and leaves the provider's state alone, and the rule is in the rule set after
  the first.
\<close>

theorem authorize_ingress_twice:
  assumes "sg_authorize_ingress aws = provider_authorize_ingress"
    and "provider w (group_id sg) = Some rules"
    and "authorize_ingress aws (Some sg) ip w = (r1, w1)"
    and "authorize_ingress aws (Some sg) ip w1 = (r2, w2)"
  shows "(\<exists>response. r1 = Inr response) \<and> r2 = Inr None \<and> provider w2 = provider w1
       \<and> (\<exists>rules'. provider w1 (group_id sg) = Some rules' \<and>
                    set (ssh_permissions ip) \<subseteq> set rules')"
proof (cases "list_ex (\<lambda>permission. permission \<in> set rules) (ssh_permissions ip)")
  case True
  then have dup: "sg_authorize_ingress aws sg (ssh_permissions ip) (provider w) =
      (Inl (ClientError ''InvalidPermission.Duplicate'' ''the specified rule already exists''
              ''AuthorizeSecurityGroupIngress''), provider w)"
    using assms(1,2) by (simp add: provider_authorize_ingress_def)
  from authorize_ingress_duplicate [OF dup] assms(3)
  have r1: "r1 = Inr None" and w1: "provider w1 = provider w" by auto
  have dup': "sg_authorize_ingress aws sg (ssh_permissions ip) (provider w1) =
      (Inl (ClientError ''InvalidPermission.Duplicate'' ''the specified rule already exists''
              ''AuthorizeSecurityGroupIngress''), provider w1)"
    using dup w1 by simp
  from authorize_ingress_duplicate [OF dup'] assms(4)
  have "r2 = Inr None" and "provider w2 = provider w1" by auto
  moreover have "\<exists>rules'. provider w1 (group_id sg) = Some rules' \<and>
                    set (ssh_permissions ip) \<subseteq> set rules'"
    using True w1 assms(2) by (simp add: ssh_permissions_def)
  ultimately show ?thesis using r1 by simp
next
  case False
  then have ok: "sg_authorize_ingress aws sg (ssh_permissions ip) (provider w) =
      (Inr (AuthorizeResponse True), (provider w)(group_id sg \<mapsto> rules @ ssh_permissions ip))"
    using assms(1,2) by (simp add: provider_authorize_ingress_def)
  from authorize_ingress_success [OF ok] assms(3)
  have r1: "r1 = Inr (Some (AuthorizeResponse True))"
    and w1: "provider w1 = (provider w)(group_id sg \<mapsto> rules @ ssh_permissions ip)" by auto
  have dup': "sg_authorize_ingress aws sg (ssh_permissions ip) (provider w1) =
      (Inl (ClientError ''InvalidPermission.Duplicate'' ''the specified rule already exists''
              ''AuthorizeSecurityGroupIngress''), provider w1)"
    using assms(1) w1 by (simp add: provider_authorize_ingress_def ssh_permissions_def)
  from authorize_ingress_duplicate [OF dup'] assms(4)
  have "r2 = Inr None" and "provider w2 = provider w1" by auto
  moreover have "\<exists>rules'. provider w1 (group_id sg) = Some rules' \<and>
                    set (ssh_permissions ip) \<subseteq> set rules'"
    using w1 by simp
  ultimately show ?thesis using r1 by simp
qed

theorem authorize_ingress_twice_witness:
  "sg_authorize_ingress example_ec2 = provider_authorize_ingress
   \<and> provider \<lparr>provider = [''sg-1'' \<mapsto> []], trace = []\<rparr> (group_id (SecurityGroupResource ''sg-1''))
       = Some []
   \<and> (\<exists>w1 w2.
         authorize_ingress example_ec2 (Some (SecurityGroupResource ''sg-1'')) ''198.51.100.7''
           \<lparr>provider = [''sg-1'' \<mapsto> []], trace = []\<rparr> =
           (Inr (Some (AuthorizeResponse True)), w1)
       \<and> authorize_ingress example_ec2 (Some (SecurityGroupResource ''sg-1'')) ''198.51.100.7'' w1 =
           (Inr None, w2)
       \<and> provider w2 = provider w1
       \<and> provider w1 ''sg-1'' = Some (ssh_permissions ''198.51.100.7''))"
proof -
  let ?sg = "SecurityGroupResource ''sg-1''"
  let ?w = "\<lparr>provider = [''sg-1'' \<mapsto> ([] :: ip_permission list)], trace = []\<rparr>"
  have h1: "sg_authorize_ingress example_ec2 = provider_authorize_ingress"
    by (simp add: example_ec2_simps)
  have h2: "provider ?w (group_id ?sg) = Some []" by simp
  obtain r1 w1 where a1: "authorize_ingress example_ec2 (Some ?sg) ''198.51.100.7'' ?w = (r1, w1)"
    by (cases "authorize_ingress example_ec2 (Some ?sg) ''198.51.100.7'' ?w")
  obtain r2 w2 where a2: "authorize_ingress example_ec2 (Some ?sg) ''198.51.100.7'' w1 = (r2, w2)"
    by (cases "authorize_ingress example_ec2 (Some ?sg) ''198.51.100.7'' w1")
  have first: "authorize_ingress example_ec2 (Some ?sg) ''198.51.100.7'' ?w =
      (Inr (Some (AuthorizeResponse True)),
       \<lparr>provider = [''sg-1'' \<mapsto> ssh_permissions ''198.51.100.7''],
        trace = [Request (AuthorizeIngress ?sg (ssh_permissions ''198.51.100.7''))]\<rparr>)"
    by (simp add: authorize_ingress_def call_def example_ec2_simps provider_authorize_ingress_def
          ssh_permissions_def Let_def)
  from authorize_ingress_twice [OF h1 h2 a1 a2] a1 a2 first h1 h2
  show ?thesis by auto
qed

text \<open>
  Claim C8. Without a security group the authorizer logs "No security group to update."
  and returns \<open>None\<close>, having sent nothing. When the provider answers the request with
  a \<open>ClientError\<close> whose code is not \<open>InvalidPermission.Duplicate\<close>, the authorizer logs
  an error that holds the group's identifier and the provider's error code and message,
  and raises that same error.
\<close>

theorem authorize_ingress_no_group_and_other_errors:
  "authorize_ingress aws None ip w =
     (Inr None, w\<lparr>trace := trace w @ [Log INFO (Text ''No security group to update.'')]\<rparr>)
   \<and> (sg_authorize_ingress aws sg (ssh_permissions ip) (provider w) =
         (Inl (ClientError code message opn), p) \<and>
       code \<noteq> ''InvalidPermission.Duplicate'' \<longrightarrow>
       authorize_ingress aws (Some sg) ip w =
         (Inl (ClientError code message opn),
          w\<lparr>provider := p,
            trace := trace w @
              [Request (AuthorizeIngress sg (ssh_permissions ip)),
               Log ERROR (Text (''Couldn't authorize inbound rules for '' @ group_id sg @
                                ''. Here's why: '' @ code @ '': '' @ message))]\<rparr>))"
  by (simp add: authorize_ingress_def ssh_permissions_def call_def logger_simps returns_def
        raises_def)

theorem authorize_ingress_no_group_and_other_errors_witness:
  "authorize_ingress example_ec2 None ''198.51.100.7'' \<lparr>provider = Map.empty, trace = []\<rparr> =
     (Inr None,
      \<lparr>provider = Map.empty, trace = [Log INFO (Text ''No security group to update.'')]\<rparr>)
   \<and> authorize_ingress example_ec2 (Some (SecurityGroupResource ''sg-9'')) ''198.51.100.7''
       \<lparr>provider = Map.empty, trace = []\<rparr> =
     (Inl (ClientError ''InvalidGroup.NotFound'' ''The security group does not exist''
             ''AuthorizeSecurityGroupIngress''),
      \<lparr>provider = Map.empty,
       trace = [Request (AuthorizeIngress (SecurityGroupResource ''sg-9'')
                           (ssh_permissions ''198.51.100.7'')),
                Log ERROR (Text (''Couldn't authorize inbound rules for sg-9. Here's why: '' @
                                 ''InvalidGroup.NotFound: The security group does not exist''))]\<rparr>)"
  using authorize_ingress_no_group_and_other_errors
          [where aws = example_ec2 and ip = "''198.51.100.7''"
             and w = "\<lparr>provider = Map.empty, trace = []\<rparr>"
             and sg = "SecurityGroupResource ''sg-9''"
             and code = "''InvalidGroup.NotFound''"
             and message = "''The security group does not exist''"
             and opn = "''AuthorizeSecurityGroupIngress''" and p = Map.empty]
  by (simp add: example_ec2_simps provider_authorize_ingress_def)

text \<open>
  Claim C9. With the empty delay schedule the wrapper calls the operation once, whatever
  the outcome. If that call raises an exception that is caught and carries no code 403,
  the wrapper reports the terminal failure with that one exception and raises it, without
  a sleep; if it raises an exception with code 403, the wrapper raises it and does nothing
  else.
\<close>

theorem retry_empty_delays:
  "invocations (snd (wrapped none [] exception report (on_provider op) w)) = invocations w + 1
   \<and> (op (provider w) = (Inl e, p1) \<and> exception e \<and> \<not> is_code_403 e \<longrightarrow>
        wrapped none [] exception report (on_provider op) w =
          (Inl e, w\<lparr>provider := p1,
                     trace := trace w @ Invoke # reported report (RetryFailedDefinitely [e])\<rparr>))
   \<and> (op (provider w) = (Inl e, p1) \<and> is_code_403 e \<longrightarrow>
        wrapped none [] exception report (on_provider op) w =
          (Inl e, w\<lparr>provider := p1, trace := trace w @ [Invoke]\<rparr>))"
  by (cases "op (provider w)")
     (auto simp: wrapped_def on_provider_def emit_def invocations_def reported_no_Invoke
           split: sum.splits)

theorem retry_empty_delays_witness:
  "invocations (snd (wrapped None [] is_Exception logger_info_sink
      (on_provider (fails_in_turn [Exception ''No public IP address found''] (Some ''ok'')))
      \<lparr>provider = 0, trace = []\<rparr>)) = 1
   \<and> wrapped None [] is_Exception logger_info_sink
        (on_provider (fails_in_turn [Exception ''No public IP address found''] (Some ''ok'')))
        \<lparr>provider = 0, trace = []\<rparr> =
      (Inl (Exception ''No public IP address found''),
       \<lparr>provider = 1,
        trace = [Invoke,
                 Log INFO (RetryFailedDefinitely [Exception ''No public IP address found''])]\<rparr>)
   \<and> wrapped None [] is_Exception logger_info_sink
        (on_provider (fails_in_turn [OtherError ''HTTPError'' True (Some (AInt 403)) ''Forbidden'']
                        (Some ''ok'')))
        \<lparr>provider = 0, trace = []\<rparr> =
      (Inl (OtherError ''HTTPError'' True (Some (AInt 403)) ''Forbidden''),
       \<lparr>provider = 1, trace = [Invoke]\<rparr>)"
  using retry_empty_delays [of None is_Exception logger_info_sink
          "fails_in_turn [Exception ''No public IP address found''] (Some ''ok'')"
          "\<lparr>provider = 0, trace = []\<rparr>" "Exception ''No public IP address found''" 1]
        retry_empty_delays [of None is_Exception logger_info_sink
          "fails_in_turn [OtherError ''HTTPError'' True (Some (AInt 403)) ''Forbidden''] (Some ''ok'')"
          "\<lparr>provider = 0, trace = []\<rparr>"
          "OtherError ''HTTPError'' True (Some (AInt 403)) ''Forbidden''" 1]
  by (simp add: fails_in_turn_def invocations_def reported_def logger_info_sink_def)

text \<open>
  Claim C10. \<open>get_instance_public_ip\<close>, as written and as the decorator leaves it, never
  returns \<open>None\<close>: it returns an address or raises. So a start that returns an instance
  identifier returns an address with it.
\<close>

theorem public_ip_never_null:
  "(get_instance_public_ip_undecorated aws inst w = (Inr ip, w') \<longrightarrow> ip \<noteq> None)
   \<and> (get_instance_public_ip aws inst w = (Inr ip, w') \<longrightarrow> ip \<noteq> None)
   \<and> (start_instance aws name my_ip w = (Inr (instance_id, public_ip), w'') \<and>
        instance_id \<noteq> None \<longrightarrow> public_ip \<noteq> None)"
  using undecorated_not_None decorated_not_None start_instance_ip by blast

theorem public_ip_never_null_witness:
  "start_instance example_ec2 ''devbox'' ''198.51.100.7''
     \<lparr>provider = [''sg-1'' \<mapsto> []], trace = []\<rparr> =
     (Inr (Some ''i-0123'', Some ''203.0.113.5''),
      snd (start_instance example_ec2 ''devbox'' ''198.51.100.7''
             \<lparr>provider = [''sg-1'' \<mapsto> []], trace = []\<rparr>))
   \<and> Some ''i-0123'' \<noteq> None \<and> Some ''203.0.113.5'' \<noteq> None"
proof -
  have run: "fst (start_instance example_ec2 ''devbox'' ''198.51.100.7''
     \<lparr>provider = [''sg-1'' \<mapsto> []], trace = []\<rparr>) = Inr (Some ''i-0123'', Some ''203.0.113.5'')"
    by (simp add: start_instance_def get_ec2_instance_id_by_name_def
          get_ec2_instance_resource_def first_group_id_def get_security_group_def
          authorize_ingress_def get_instance_public_ip_def
          get_instance_public_ip_undecorated_def wrapped_def default_delays_def
          provider_authorize_ingress_def call_def emit_def returns_def raises_def
          logger_simps example_ec2_simps Let_def)
  then have eq: "start_instance example_ec2 ''devbox'' ''198.51.100.7''
     \<lparr>provider = [''sg-1'' \<mapsto> []], trace = []\<rparr> =
     (Inr (Some ''i-0123'', Some ''203.0.113.5''),
      snd (start_instance example_ec2 ''devbox'' ''198.51.100.7''
             \<lparr>provider = [''sg-1'' \<mapsto> []], trace = []\<rparr>))"
    by (simp add: prod_eq_iff)
  from public_ip_never_null
         [where aws = example_ec2 and name = "''devbox''" and my_ip = "''198.51.100.7''"
            and w = "\<lparr>provider = [''sg-1'' \<mapsto> []], trace = []\<rparr>"
            and instance_id = "Some ''i-0123''" and public_ip = "Some ''203.0.113.5''"
            and w'' = "snd (start_instance example_ec2 ''devbox'' ''198.51.100.7''
                 \<lparr>provider = [''sg-1'' \<mapsto> []], trace = []\<rparr>)"] eq
  show ?thesis by simp
qed

end
